theory Spec2Isabelle
  imports Complex_Main "HOL-Library.AList"
begin

section \<open>Values, exceptions and text\<close>

text \<open>
  The notebook works on pandas/cudf tables. A table cell is a number, a string or the
  missing value. A number is the real it denotes, an integer or a float64. Arithmetic on
  cells is modelled twice: exactly, on the reals, and as the source computes it, with every
  operation rounded to binary64. Exceptions of the source are values of type \<open>error\<close>;
  a function that can raise returns \<open>error + 'a\<close>.
\<close>

datatype error =
    KeyError string
  | TypeError
  | IndexError
  | ValueError
  | OSError
  | UnpicklingError

datatype val = Num real | Str string | NaN

type_synonym dict = "(string \<times> val) list"

subsection \<open>\<open>str(int)\<close>, \<open>int(str)\<close> and \<open>str.split\<close>\<close>

definition digit_char :: "nat \<Rightarrow> char" where
  "digit_char d = char_of (48 + d)"

fun str_nat :: "nat \<Rightarrow> string" where
  "str_nat n = (if n < 10 then [digit_char n] else str_nat (n div 10) @ [digit_char (n mod 10)])"

declare str_nat.simps [simp del]

text \<open>\<open>f"{i}"\<close> for an integer index label \<open>i\<close>.\<close>

definition str_int :: "int \<Rightarrow> string" where
  "str_int i = (if i < 0 then CHR ''-'' # str_nat (nat (- i)) else str_nat (nat i))"

definition digit_val :: "char \<Rightarrow> nat option" where
  "digit_val c =
     (let k = (of_char c :: nat) in if 48 \<le> k \<and> k \<le> 57 then Some (k - 48) else None)"

fun parse_digits :: "nat \<Rightarrow> string \<Rightarrow> nat option" where
  "parse_digits acc [] = Some acc"
| "parse_digits acc (c # cs) =
     (case digit_val c of None \<Rightarrow> None | Some d \<Rightarrow> parse_digits (acc * 10 + d) cs)"

text \<open>
  \<open>int(s)\<close> on an optionally signed, non-empty run of ASCII digits; \<open>None\<close> is the
  \<open>ValueError\<close>. (Python also accepts surrounding blanks and single underscores between
  digits; neither occurs in a segment produced by \<open>split('_')\<close> of a node identity.)
\<close>

definition py_int :: "string \<Rightarrow> int option" where
  "py_int s =
     (case s of
        [] \<Rightarrow> None
      | c # cs \<Rightarrow>
          if c = CHR ''-'' then (if cs = [] then None else map_option (\<lambda>n. - int n) (parse_digits 0 cs))
          else if c = CHR ''+'' then (if cs = [] then None else map_option int (parse_digits 0 cs))
          else map_option int (parse_digits 0 s))"

text \<open>\<open>s.split(sep)\<close> for a one-character separator.\<close>

fun split :: "char \<Rightarrow> string \<Rightarrow> string list" where
  "split sep [] = [[]]"
| "split sep (c # cs) =
     (if c = sep then [] # split sep cs
      else (case split sep cs of w # ws \<Rightarrow> (c # w) # ws | [] \<Rightarrow> [[c]]))"

text \<open>\<open>xs[i]\<close> and \<open>.iloc[i]\<close>: negative positions count from the end, anything else out of
  range raises \<open>IndexError\<close>.\<close>

definition iloc :: "'a list \<Rightarrow> int \<Rightarrow> error + 'a" where
  "iloc xs i =
     (if 0 \<le> i \<and> i < int (length xs) then Inr (xs ! nat i)
      else if i < 0 \<and> - int (length xs) \<le> i then Inr (xs ! nat (int (length xs) + i))
      else Inl IndexError)"

section \<open>Tables\<close>

text \<open>
  A node table is built by \<open>cudf.DataFrame(all_nodes)\<close> from a list of dictionaries with
  different keys: the columns are the union of the keys, a key a row does not have reads as
  the missing value, and the row labels are the positions.
\<close>

record DataFrame =
  columns :: "string list"
  rows :: "dict list"

definition cell :: "dict \<Rightarrow> string \<Rightarrow> val" where
  "cell d c = (case map_of d c of Some v \<Rightarrow> v | None \<Rightarrow> NaN)"

definition DataFrame_of :: "dict list \<Rightarrow> DataFrame" where
  "DataFrame_of ds = \<lparr>columns = rev (remdups (rev (concat (map (map fst) ds)))), rows = ds\<rparr>"

text \<open>\<open>df[c]\<close>: the column as a series, \<open>KeyError\<close> when the table has no such column.\<close>

definition getitem :: "DataFrame \<Rightarrow> string \<Rightarrow> error + val list" where
  "getitem df c =
     (if c \<in> set (columns df) then Inr (map (\<lambda>r. cell r c) (rows df)) else Inl (KeyError c))"

text \<open>\<open>df[c] = v\<close> with a scalar: every row gets \<open>v\<close>, the column is appended when new.\<close>

definition setitem :: "DataFrame \<Rightarrow> string \<Rightarrow> val \<Rightarrow> DataFrame" where
  "setitem df c v =
     \<lparr>columns = (if c \<in> set (columns df) then columns df else columns df @ [c]),
      rows = map (AList.update c v) (rows df)\<rparr>"

text \<open>\<open>df[mask]\<close>: the rows where the boolean mask holds.\<close>

fun mask_rows :: "bool list \<Rightarrow> 'a list \<Rightarrow> 'a list" where
  "mask_rows (m # ms) (r # rs) = (if m then r # mask_rows ms rs else mask_rows ms rs)"
| "mask_rows _ _ = []"

text \<open>
  \<open>df.loc[mask, c] = series\<close> where the series was computed from \<open>df[mask]\<close>: it carries the
  labels of the masked rows, so its values land on those rows in order.
\<close>

fun loc_set :: "bool list \<Rightarrow> string \<Rightarrow> val list \<Rightarrow> dict list \<Rightarrow> dict list" where
  "loc_set (True # ms) c (v # vs) (r # rs) = AList.update c v r # loc_set ms c vs rs"
| "loc_set (False # ms) c vs (r # rs) = r # loc_set ms c vs rs"
| "loc_set _ c _ rs = rs"

section \<open>Stage 3: the rule-based scorer\<close>

text \<open>
  Series arithmetic is elementwise on floats, where \<open>None\<close> is the float NaN: it
  propagates through \<open>*\<close>, \<open>+\<close>, \<open>/\<close> and \<open>clip\<close>. A string in a numeric column makes the
  arithmetic raise \<open>TypeError\<close>.
\<close>

definition to_float :: "val \<Rightarrow> error + real option" where
  "to_float v = (case v of Num x \<Rightarrow> Inr (Some x) | NaN \<Rightarrow> Inr None | Str s \<Rightarrow> Inl TypeError)"

definition of_float :: "real option \<Rightarrow> val" where
  "of_float x = (case x of Some r \<Rightarrow> Num r | None \<Rightarrow> NaN)"

definition fillna :: "real \<Rightarrow> val \<Rightarrow> val" where
  "fillna d v = (case v of NaN \<Rightarrow> Num d | _ \<Rightarrow> v)"

definition fmul :: "real option \<Rightarrow> real \<Rightarrow> real option" where
  "fmul a k = map_option (\<lambda>x. x * k) a"

definition fdiv :: "real option \<Rightarrow> real \<Rightarrow> real option" where
  "fdiv a k = map_option (\<lambda>x. x / k) a"

definition fadd :: "real option \<Rightarrow> real option \<Rightarrow> real option" where
  "fadd a b = (case a of None \<Rightarrow> None | Some x \<Rightarrow> map_option (\<lambda>y. x + y) b)"

definition clip_upper :: "real option \<Rightarrow> real \<Rightarrow> real option" where
  "clip_upper a u = map_option (\<lambda>x. if x > u then u else x) a"

text \<open>Sequencing of calls that can raise: the first exception ends the computation.\<close>

definition and_then :: "error + 'a \<Rightarrow> ('a \<Rightarrow> error + 'b) \<Rightarrow> error + 'b" where
  "and_then x f = (case x of Inl e \<Rightarrow> Inl e | Inr v \<Rightarrow> f v)"

fun series_float :: "val list \<Rightarrow> error + real option list" where
  "series_float [] = Inr []"
| "series_float (v # vs) =
     and_then (to_float v) (\<lambda>x. and_then (series_float vs) (\<lambda>xs. Inr (x # xs)))"

definition smul :: "real option list \<Rightarrow> real \<Rightarrow> real option list" where
  "smul xs k = map (\<lambda>x. fmul x k) xs"

definition sdiv :: "real option list \<Rightarrow> real \<Rightarrow> real option list" where
  "sdiv xs k = map (\<lambda>x. fdiv x k) xs"

definition sadd :: "real option list \<Rightarrow> real option list \<Rightarrow> real option list" where
  "sadd xs ys = map2 fadd xs ys"

definition sclip :: "real option list \<Rightarrow> real \<Rightarrow> real option list" where
  "sclip xs u = map (\<lambda>x. clip_upper x u) xs"

text \<open>The arithmetic of \<open>compute_walkability_scores\<close> on the six series of
  \<open>neighborhood_df\<close>, line by line.\<close>

definition walkability_series ::
  "real option list \<Rightarrow> real option list \<Rightarrow> real option list \<Rightarrow> real option list \<Rightarrow>
   real option list \<Rightarrow> real option list \<Rightarrow> real option list" where
  "walkability_series residential commercial education ndvi tree_count transit_count =
     (let land_use_score =
            sdiv (sadd (sadd (smul residential 0.4) (smul commercial 0.3)) (smul education 0.2)) 100;
          ndvi_score = smul ndvi 0.5;
          tree_score = smul (sclip (sdiv tree_count 100) 1.0) 0.2;
          transit_score = smul (sclip (sdiv transit_count 20) 1.0) 0.2
      in sclip (sadd (sadd (sadd land_use_score (smul ndvi_score 0.4)) tree_score) transit_score) 1.0)"

text \<open>
  \<open>compute_walkability_scores(nodes_df)\<close>. The table is mutated in place and returned; the
  model returns the table after the call. Every exception is raised before the first
  write, so a raising call leaves the table as it was.
\<close>

definition compute_walkability_scores :: "DataFrame \<Rightarrow> error + DataFrame" where
  "compute_walkability_scores nodes_df =
     and_then (getitem nodes_df ''type'') (\<lambda>types.
       let neighborhood_mask = map (\<lambda>v. v = Str ''neighborhood'') types;
           neighborhood_df = nodes_df\<lparr>rows := mask_rows neighborhood_mask (rows nodes_df)\<rparr>
       in
         if length (rows neighborhood_df) = 0 then
           Inr (if ''walkability_rule'' \<notin> set (columns nodes_df)
                then setitem nodes_df ''walkability_rule'' (Num 0.0) else nodes_df)
         else
           and_then (getitem neighborhood_df ''land_use_residential_percent'') (\<lambda>residential.
           and_then (getitem neighborhood_df ''land_use_commercial_percent'') (\<lambda>commercial.
           and_then (getitem neighborhood_df ''land_use_education_percent'') (\<lambda>education.
           and_then (getitem neighborhood_df ''ndvi_mean'') (\<lambda>ndvi_mean.
           let ndvi = map (fillna 0.0) ndvi_mean in
           and_then (getitem neighborhood_df ''tree_count'') (\<lambda>tree_count.
           and_then (getitem neighborhood_df ''transit_count'') (\<lambda>transit_count.
           and_then (series_float residential) (\<lambda>residential.
           and_then (series_float commercial) (\<lambda>commercial.
           and_then (series_float education) (\<lambda>education.
           and_then (series_float ndvi) (\<lambda>ndvi.
           and_then (series_float tree_count) (\<lambda>tree_count.
           and_then (series_float transit_count) (\<lambda>transit_count.
           let walkability =
                 walkability_series residential commercial education ndvi tree_count transit_count;
               nodes_df1 = (if ''walkability_rule'' \<notin> set (columns nodes_df)
                            then setitem nodes_df ''walkability_rule'' (Num 0.0) else nodes_df)
           in Inr (nodes_df1\<lparr>rows :=
                     loc_set neighborhood_mask ''walkability_rule'' (map of_float walkability)
                       (rows nodes_df1)\<rparr>))))))))))))))"

text \<open>The closed form of the score, as the specification writes it.\<close>

definition walkability_closed_form :: "real \<Rightarrow> real \<Rightarrow> real \<Rightarrow> real \<Rightarrow> real \<Rightarrow> real \<Rightarrow> real" where
  "walkability_closed_form residential commercial education ndvi tree_count transit_count =
     min ((0.4 * residential + 0.3 * commercial + 0.2 * education) / 100
            + 0.4 * (0.5 * ndvi)
            + 0.2 * min (tree_count / 100) 1
            + 0.2 * min (transit_count / 20) 1) 1.0"

section \<open>Stage 3 in binary64\<close>

text \<open>
  The numeric columns are float64, and an integer column is converted to float64 when it
  meets a float. The definitions of the previous section compute on the reals the cells
  denote; this section computes what lines 286 to 298 of the source return to the last
  bit: every operation is the exact one followed by rounding to binary64 (53 significant
  bits, round to nearest, ties to even, gradual underflow below \<open>2^-1022\<close>, overflow to
  infinity from \<open>2^1024\<close>). A float is a finite real, an infinity (\<open>Inf True\<close> is the
  negative one) or the NaN. The sign of zero is not kept.
\<close>

datatype f64 = Fin real | Inf bool | NaN64

text \<open>\<open>pow2 e\<close> is \<open>2^e\<close>. \<open>binade n x\<close> is the exponent \<open>e\<close> with \<open>2^e \<le> x < 2^(e+1)\<close>,
  found by halving or doubling \<open>x\<close> at most \<open>n\<close> times. \<open>rne\<close> rounds to the nearest integer,
  a tie going to the even one.\<close>

definition pow2 :: "int \<Rightarrow> real" where
  "pow2 e = (if 0 \<le> e then 2 ^ nat e else 1 / 2 ^ nat (- e))"

fun binade :: "nat \<Rightarrow> real \<Rightarrow> int" where
  "binade 0 x = 0"
| "binade (Suc n) x =
     (if x < 1 then binade n (2 * x) - 1 else if 2 \<le> x then binade n (x / 2) + 1 else 0)"

definition rne :: "real \<Rightarrow> int" where
  "rne r =
     (let f = \<lfloor>r\<rfloor>; d = r - of_int f
      in if d < 1 / 2 then f else if 1 / 2 < d then f + 1 else if even f then f else f + 1)"

text \<open>
  Rounding a real to binary64. The exponent is at least \<open>-1022\<close> (below it the spacing of
  the subnormal numbers stays \<open>2^-1074\<close>), so 1100 steps are more than \<open>binade\<close> needs
  for any \<open>x\<close> under \<open>2^1024\<close>; the result is the multiple of the spacing nearest to \<open>x\<close>.
\<close>

definition round64 :: "real \<Rightarrow> f64" where
  "round64 x =
     (if x = 0 then Fin 0
      else if 2 ^ 1024 \<le> \<bar>x\<bar> then Inf (x < 0)
      else
        let e = max (binade 1100 \<bar>x\<bar>) (- 1022);
            ulp = pow2 (e - 52);
            y = of_int (rne (x / ulp)) * ulp
        in if 2 ^ 1024 \<le> \<bar>y\<bar> then Inf (x < 0) else Fin y)"

text \<open>The operations \<open>*\<close>, \<open>+\<close>, \<open>/\<close> and \<open><\<close> of float64 (numpy raises nothing on a division
  by zero or an overflow).\<close>

definition f64_mul :: "f64 \<Rightarrow> f64 \<Rightarrow> f64" where
  "f64_mul a b =
     (case (a, b) of
        (Fin x, Fin y) \<Rightarrow> round64 (x * y)
      | (Fin x, Inf s) \<Rightarrow> if x = 0 then NaN64 else Inf (s \<noteq> (x < 0))
      | (Inf s, Fin y) \<Rightarrow> if y = 0 then NaN64 else Inf (s \<noteq> (y < 0))
      | (Inf s, Inf t) \<Rightarrow> Inf (s \<noteq> t)
      | _ \<Rightarrow> NaN64)"

definition f64_add :: "f64 \<Rightarrow> f64 \<Rightarrow> f64" where
  "f64_add a b =
     (case (a, b) of
        (Fin x, Fin y) \<Rightarrow> round64 (x + y)
      | (Fin x, Inf s) \<Rightarrow> Inf s
      | (Inf s, Fin y) \<Rightarrow> Inf s
      | (Inf s, Inf t) \<Rightarrow> if s = t then Inf s else NaN64
      | _ \<Rightarrow> NaN64)"

definition f64_div :: "f64 \<Rightarrow> f64 \<Rightarrow> f64" where
  "f64_div a b =
     (case (a, b) of
        (Fin x, Fin y) \<Rightarrow>
          if y = 0 then (if x = 0 then NaN64 else Inf (x < 0)) else round64 (x / y)
      | (Fin x, Inf s) \<Rightarrow> Fin 0
      | (Inf s, Fin y) \<Rightarrow> Inf (s \<noteq> (y < 0))
      | _ \<Rightarrow> NaN64)"

definition f64_less :: "f64 \<Rightarrow> f64 \<Rightarrow> bool" where
  "f64_less a b =
     (case (a, b) of
        (Fin x, Fin y) \<Rightarrow> x < y
      | (Fin x, Inf s) \<Rightarrow> \<not> s
      | (Inf s, Fin y) \<Rightarrow> s
      | (Inf s, Inf t) \<Rightarrow> s \<and> \<not> t
      | _ \<Rightarrow> False)"

text \<open>\<open>.clip(upper=u)\<close> on one element, and Python's \<open>min(a, b)\<close> on two floats.\<close>

definition clip64 :: "f64 \<Rightarrow> f64 \<Rightarrow> f64" where
  "clip64 a upper = (if f64_less upper a then upper else a)"

definition f64_min :: "f64 \<Rightarrow> f64 \<Rightarrow> f64" where
  "f64_min a b = (if f64_less b a then b else a)"

text \<open>Reading a cell as float64; a string makes the arithmetic raise \<open>TypeError\<close>.\<close>

definition to_f64 :: "val \<Rightarrow> error + f64" where
  "to_f64 v = (case v of Num x \<Rightarrow> Inr (round64 x) | NaN \<Rightarrow> Inr NaN64 | Str s \<Rightarrow> Inl TypeError)"

fun series_f64 :: "val list \<Rightarrow> error + f64 list" where
  "series_f64 [] = Inr []"
| "series_f64 (v # vs) =
     and_then (to_f64 v) (\<lambda>x. and_then (series_f64 vs) (\<lambda>xs. Inr (x # xs)))"

text \<open>Series arithmetic with a scalar literal of the source (the literal \<open>0.4\<close> is the float
  nearest to 0.4) and between two series.\<close>

definition smul64 :: "f64 list \<Rightarrow> real \<Rightarrow> f64 list" where
  "smul64 xs k = map (\<lambda>x. f64_mul x (round64 k)) xs"

definition sdiv64 :: "f64 list \<Rightarrow> real \<Rightarrow> f64 list" where
  "sdiv64 xs k = map (\<lambda>x. f64_div x (round64 k)) xs"

definition sadd64 :: "f64 list \<Rightarrow> f64 list \<Rightarrow> f64 list" where
  "sadd64 xs ys = map2 f64_add xs ys"

definition sclip64 :: "f64 list \<Rightarrow> real \<Rightarrow> f64 list" where
  "sclip64 xs u = map (\<lambda>x. clip64 x (round64 u)) xs"

text \<open>Lines 293 to 298 on the six series of \<open>neighborhood_df\<close>.\<close>

definition walkability_series64 ::
  "f64 list \<Rightarrow> f64 list \<Rightarrow> f64 list \<Rightarrow> f64 list \<Rightarrow> f64 list \<Rightarrow> f64 list \<Rightarrow> f64 list" where
  "walkability_series64 residential commercial education ndvi tree_count transit_count =
     (let land_use_score =
            sdiv64 (sadd64 (sadd64 (smul64 residential 0.4) (smul64 commercial 0.3))
                      (smul64 education 0.2)) 100;
          ndvi_score = smul64 ndvi 0.5;
          tree_score = smul64 (sclip64 (sdiv64 tree_count 100) 1.0) 0.2;
          transit_score = smul64 (sclip64 (sdiv64 transit_count 20) 1.0) 0.2
      in sclip64 (sadd64 (sadd64 (sadd64 land_use_score (smul64 ndvi_score 0.4)) tree_score)
                    transit_score) 1.0)"

text \<open>
  \<open>df.loc[mask, c] = series\<close> with a float series: for each row of the table the float
  that lands on it, \<open>None\<close> on a row outside the mask, which the assignment does not write.
\<close>

fun loc_set64 :: "bool list \<Rightarrow> f64 list \<Rightarrow> f64 option list" where
  "loc_set64 (True # ms) (v # vs) = Some v # loc_set64 ms vs"
| "loc_set64 (False # ms) vs = None # loc_set64 ms vs"
| "loc_set64 _ _ = []"

text \<open>
  \<open>compute_walkability_scores(nodes_df)\<close> in float64, with the control flow and the
  exceptions of the definition on the reals. The result is the column of floats that line
  304 writes into \<open>walkability_rule\<close>, row by row; a row that line 304 does not write keeps
  what the previous section says, and the call that returns early writes no score.
\<close>

definition compute_walkability_scores64 :: "DataFrame \<Rightarrow> error + f64 option list" where
  "compute_walkability_scores64 nodes_df =
     and_then (getitem nodes_df ''type'') (\<lambda>types.
       let neighborhood_mask = map (\<lambda>v. v = Str ''neighborhood'') types;
           neighborhood_df = nodes_df\<lparr>rows := mask_rows neighborhood_mask (rows nodes_df)\<rparr>
       in
         if length (rows neighborhood_df) = 0 then Inr (map (\<lambda>r. None) (rows nodes_df))
         else
           and_then (getitem neighborhood_df ''land_use_residential_percent'') (\<lambda>residential.
           and_then (getitem neighborhood_df ''land_use_commercial_percent'') (\<lambda>commercial.
           and_then (getitem neighborhood_df ''land_use_education_percent'') (\<lambda>education.
           and_then (getitem neighborhood_df ''ndvi_mean'') (\<lambda>ndvi_mean.
           let ndvi = map (fillna 0.0) ndvi_mean in
           and_then (getitem neighborhood_df ''tree_count'') (\<lambda>tree_count.
           and_then (getitem neighborhood_df ''transit_count'') (\<lambda>transit_count.
           and_then (series_f64 residential) (\<lambda>residential.
           and_then (series_f64 commercial) (\<lambda>commercial.
           and_then (series_f64 education) (\<lambda>education.
           and_then (series_f64 ndvi) (\<lambda>ndvi.
           and_then (series_f64 tree_count) (\<lambda>tree_count.
           and_then (series_f64 transit_count) (\<lambda>transit_count.
           let walkability =
                 walkability_series64 residential commercial education ndvi tree_count
                   transit_count
           in Inr (loc_set64 neighborhood_mask walkability))))))))))))))"

text \<open>The closed form of the score, as the specification writes it, in float64.\<close>

definition walkability_closed_form64 ::
  "real \<Rightarrow> real \<Rightarrow> real \<Rightarrow> real \<Rightarrow> real \<Rightarrow> real \<Rightarrow> f64" where
  "walkability_closed_form64 residential commercial education ndvi tree_count transit_count =
     f64_min
       (f64_add
          (f64_add
             (f64_add
                (f64_div
                   (f64_add
                      (f64_add (f64_mul (round64 0.4) (round64 residential))
                               (f64_mul (round64 0.3) (round64 commercial)))
                      (f64_mul (round64 0.2) (round64 education)))
                   (round64 100))
                (f64_mul (round64 0.4) (f64_mul (round64 0.5) (round64 ndvi))))
             (f64_mul (round64 0.2) (f64_min (f64_div (round64 tree_count) (round64 100)) (round64 1))))
          (f64_mul (round64 0.2) (f64_min (f64_div (round64 transit_count) (round64 20)) (round64 1))))
       (round64 1.0)"

section \<open>Geometry and feature layers\<close>

text \<open>
  Geometries are shapely objects. The code only calls their predicates and accessors, so the
  geometry type is a parameter \<open>'g\<close> and the library operations the code calls are the
  fields of \<open>geom_ops\<close>: \<open>.is_valid\<close>, \<open>.buffer(d)\<close>, \<open>.within(other)\<close>,
  \<open>.intersects(other)\<close>, \<open>.geom_type\<close> and \<open>.coords\<close>.
\<close>

record 'g geom_ops =
  g_is_valid :: "'g \<Rightarrow> bool"
  g_buffer :: "'g \<Rightarrow> real \<Rightarrow> 'g"
  g_within :: "'g \<Rightarrow> 'g \<Rightarrow> bool"
  g_intersects :: "'g \<Rightarrow> 'g \<Rightarrow> bool"
  g_geom_type :: "'g \<Rightarrow> string"
  g_coords :: "'g \<Rightarrow> (real \<times> real) list"

text \<open>
  A row of a feature layer has a geometry and the attribute columns the pipeline reads.
  \<open>population_2024\<close> is the column \<open>2024population\<close>; \<open>road_class_attr\<close> and
  \<open>transit_class_attr\<close> are the column \<open>class\<close> of the road and of the transit layer.
  A layer is the list of its rows, each with its index label.
\<close>

record 'g feature =
  geometry :: 'g

record 'g neighborhood_row = "'g feature" +
  LIE_NAME :: string
  population_2024 :: val
  land_use_residential_percent :: val
  land_use_commercial_percent :: val
  land_use_education_percent :: val
  ndvi_mean :: val
  tree_count :: val
  transit_count :: val

record 'g building_row = "'g feature" +
  building :: val
  area_m2 :: val

record 'g road_row = "'g feature" +
  road_class_attr :: val
  length_m :: val

record 'g transit_row = "'g feature" +
  transit_class_attr :: val

type_synonym 'r frame = "(int \<times> 'r) list"

text \<open>The dictionary \<open>data\<close> returned by \<open>load_and_prepare_data\<close>, as \<open>build_graph\<close> reads it.\<close>

record 'g data =
  neighborhoods :: "'g neighborhood_row frame"
  buildings :: "'g building_row frame"
  roads :: "'g road_row frame"
  trees :: "'g feature frame"
  transit :: "'g transit_row frame"

section \<open>Stage 1: the geometry validator\<close>

text \<open>
  Tables are Python objects passed by reference. The store is the list of the objects
  allocated so far and a reference is a position in it; an operation that returns a new
  table appends one.
\<close>

type_synonym 'a store = "'a list"

definition alloc :: "'a \<Rightarrow> 'a store \<Rightarrow> nat \<times> 'a store" where
  "alloc v h = (length h, h @ [v])"

text \<open>\<open>gdf.reset_index(drop=True)\<close>: the labels become the positions.\<close>

definition reset_index :: "'r frame \<Rightarrow> 'r frame" where
  "reset_index gdf = zip (map int [0..<length gdf]) (map snd gdf)"

text \<open>
  \<open>validate_geometries(gdf, name)\<close> on the table at reference \<open>gdf\<close>. The result is the new
  store, the reference returned and the two lines printed; \<open>None\<close> when \<open>gdf\<close> is not a
  reference of the store.
\<close>

definition validate_geometries ::
  "'g geom_ops \<Rightarrow> ('g, 'z) feature_scheme frame store \<Rightarrow> nat \<Rightarrow> string \<Rightarrow>
   (('g, 'z) feature_scheme frame store \<times> nat \<times> string list) option" where
  "validate_geometries ops h gdf name =
     (if gdf < length h then
        let line1 = ''Validating geometries for '' @ name @ ''...'';
            (gdf1, h1) = alloc (filter (\<lambda>(l, r). g_is_valid ops (geometry r)) (h ! gdf)) h;
            (gdf2, h2) = alloc (reset_index (h1 ! gdf1)) h1;
            line2 = name @ '' after validation: '' @ str_nat (length (h2 ! gdf2)) @ '' rows''
        in Some (h2, gdf2, [line1, line2])
      else None)"

section \<open>Stage 2: the subgraph builder\<close>

text \<open>\<open>subgraph_data = {'nodes': nodes_df, 'edges': edges_df}\<close>; \<open>edges_df\<close> may be \<open>None\<close>.\<close>

record subgraph_data =
  nodes :: DataFrame
  edges :: "DataFrame option"

subsection \<open>The cache directory\<close>

text \<open>
  A file of the cache directory holds a pickled \<open>subgraph_data\<close>, or bytes that do not
  unpickle (a file left behind by a write that failed half way). \<open>pickle.load\<close> of what
  \<open>pickle.dump\<close> wrote is taken to give the value back. Writing can fail: \<open>open_fails\<close>
  are the paths on which \<open>open(path, 'wb')\<close> raises, \<open>dump_fails\<close> those on which the file
  is created and \<open>pickle.dump\<close> then raises.
\<close>

datatype cache_file = Pickled subgraph_data | Unreadable

record filesystem =
  files :: "string \<Rightarrow> cache_file option"
  open_fails :: "string \<Rightarrow> bool"
  dump_fails :: "string \<Rightarrow> bool"

definition SUBGRAPH_DIR :: string where
  "SUBGRAPH_DIR = ''/home/johnny/Iaacthesis/projects/Geojson/GNN_Read_data/subgraphs''"

text \<open>\<open>os.path.join(SUBGRAPH_DIR, f"subgraph_{lie_name}.pkl")\<close>\<close>

definition subgraph_path_of :: "string \<Rightarrow> string" where
  "subgraph_path_of lie_name = SUBGRAPH_DIR @ ''/'' @ ''subgraph_'' @ lie_name @ ''.pkl''"

text \<open>\<open>with open(path, 'rb') as f: pickle.load(f)\<close>\<close>

definition load_pickle :: "filesystem \<Rightarrow> string \<Rightarrow> error + subgraph_data" where
  "load_pickle fs path =
     (case files fs path of
        None \<Rightarrow> Inl OSError
      | Some Unreadable \<Rightarrow> Inl UnpicklingError
      | Some (Pickled sd) \<Rightarrow> Inr sd)"

text \<open>\<open>with open(path, 'wb') as f: pickle.dump(subgraph_data, f)\<close>: the file system after the
  statement and the exception it raised, if any.\<close>

definition dump_pickle :: "filesystem \<Rightarrow> string \<Rightarrow> subgraph_data \<Rightarrow> filesystem \<times> error option" where
  "dump_pickle fs path sd =
     (if open_fails fs path then (fs, Some OSError)
      else if dump_fails fs path then (fs\<lparr>files := (files fs)(path \<mapsto> Unreadable)\<rparr>, Some OSError)
      else (fs\<lparr>files := (files fs)(path \<mapsto> Pickled sd)\<rparr>, None))"

subsection \<open>Node records\<close>

definition neighborhood_node :: "'g neighborhood_row \<Rightarrow> dict" where
  "neighborhood_node nb =
     [(''vertex'', Str (''neighborhood_'' @ LIE_NAME nb)),
      (''type'', Str ''neighborhood''),
      (''lie_name'', Str (LIE_NAME nb)),
      (''population'', population_2024 nb),
      (''land_use_residential_percent'', land_use_residential_percent nb),
      (''land_use_commercial_percent'', land_use_commercial_percent nb),
      (''land_use_education_percent'', land_use_education_percent nb),
      (''ndvi_mean'', ndvi_mean nb),
      (''tree_count'', tree_count nb),
      (''transit_count'', transit_count nb)]"

definition building_node :: "int \<times> 'g building_row \<Rightarrow> dict" where
  "building_node p =
     (case p of (b_idx, b) \<Rightarrow>
        [(''vertex'', Str (''building_'' @ str_int b_idx)),
         (''type'', Str ''building''),
         (''building_type'', building b),
         (''area_m2'', area_m2 b)])"

definition tree_node :: "int \<times> 'g feature \<Rightarrow> dict" where
  "tree_node p =
     (case p of (t_idx, tree) \<Rightarrow> [(''vertex'', Str (''tree_'' @ str_int t_idx)), (''type'', Str ''tree'')])"

definition transit_node :: "int \<times> 'g transit_row \<Rightarrow> dict" where
  "transit_node p =
     (case p of (t_idx, t) \<Rightarrow>
        [(''vertex'', Str (''transit_'' @ str_int t_idx)),
         (''type'', Str ''transit''),
         (''class'', transit_class_attr t)])"

text \<open>The first road loop: the two end points of every selected road whose geometry type is
  \<open>LineString\<close>. \<open>geom.coords[0]\<close> raises \<open>IndexError\<close> on an empty coordinate sequence.\<close>

fun road_points_of ::
  "'g geom_ops \<Rightarrow> 'g road_row frame \<Rightarrow> error + (string \<times> (real \<times> real)) list" where
  "road_points_of ops [] = Inr []"
| "road_points_of ops ((r_idx, road) # rest) =
     (let geom = geometry road in
      if g_geom_type ops geom = ''LineString'' then
        and_then (iloc (g_coords ops geom) 0) (\<lambda>start_point.
        and_then (iloc (g_coords ops geom) (- 1)) (\<lambda>end_point.
        and_then (road_points_of ops rest) (\<lambda>road_points.
          Inr ((''road_start_'' @ str_int r_idx, start_point)
               # (''road_end_'' @ str_int r_idx, end_point) # road_points))))
      else road_points_of ops rest)"

text \<open>The dictionary \<open>road_data\<close> of the second road loop.\<close>

definition road_node :: "string \<Rightarrow> 'g road_row \<Rightarrow> dict" where
  "road_node node_id row =
     [(''vertex'', Str node_id),
      (''type'', Str ''road''),
      (''road_class'', road_class_attr row),
      (''length_m'', length_m row)]"

text \<open>The second road loop: the row position is parsed back out of the node identity,
  \<open>int(node_id.split('_')[2])\<close>, and looked up in the whole road layer by position.\<close>

fun road_nodes_of ::
  "'g road_row frame \<Rightarrow> (string \<times> (real \<times> real)) list \<Rightarrow> error + dict list" where
  "road_nodes_of roads_gdf [] = Inr []"
| "road_nodes_of roads_gdf ((node_id, geom) # rest) =
     and_then (iloc (split CHR ''_'' node_id) 2) (\<lambda>seg.
     and_then (case py_int seg of None \<Rightarrow> Inl ValueError | Some i \<Rightarrow> Inr i) (\<lambda>r_idx.
     and_then (iloc (map snd roads_gdf) r_idx) (\<lambda>row.
       let road_data = road_node node_id row
       in and_then (road_nodes_of roads_gdf rest) (\<lambda>road_nodes. Inr (road_data # road_nodes)))))"

subsection \<open>\<open>build_graph\<close>\<close>

text \<open>
  The body of the neighborhood loop after the cache check, up to \<open>subgraph_data\<close>: the nodes
  of one neighborhood row. It returns \<open>subgraph_data\<close> and the road nodes that the body also
  appends to \<open>road_network_nodes\<close>.
\<close>

definition construct_subgraph ::
  "'g geom_ops \<Rightarrow> 'g data \<Rightarrow> 'g neighborhood_row \<Rightarrow> error + (subgraph_data \<times> dict list)" where
  "construct_subgraph ops d nb =
     (let all_edges = ([] :: dict list);
          buffer_distance = 200;
          neigh_geom = geometry nb;
          neigh_buffer = g_buffer ops neigh_geom buffer_distance;
          relevant_buildings = filter (\<lambda>(l, b). g_within ops (geometry b) neigh_buffer) (buildings d);
          relevant_roads = filter (\<lambda>(l, r). g_intersects ops (geometry r) neigh_buffer) (roads d);
          relevant_trees = filter (\<lambda>(l, t). g_within ops (geometry t) neigh_buffer) (trees d);
          relevant_transit = filter (\<lambda>(l, t). g_within ops (geometry t) neigh_buffer) (transit d)
      in
        and_then (road_points_of ops relevant_roads) (\<lambda>road_points.
        and_then (road_nodes_of (roads d) road_points) (\<lambda>road_nodes.
          let all_nodes = [neighborhood_node nb]
                @ map building_node relevant_buildings
                @ road_nodes
                @ map tree_node relevant_trees
                @ map transit_node relevant_transit;
              nodes_df = DataFrame_of all_nodes;
              edges_df = (if all_edges \<noteq> [] then Some (DataFrame_of all_edges) else None)
          in Inr (\<lparr>nodes = nodes_df, edges = edges_df\<rparr>, road_nodes))))"

text \<open>
  The loop \<open>for idx in range(len(neighborhoods_gdf))\<close> over the rows at the positions
  \<open>idx\<close>, with the state it threads: the file system, the dictionary \<open>subgraphs\<close> (in
  insertion order, a later assignment to a key replacing the value in place) and
  \<open>road_network_nodes\<close>. An exception leaves the loop and the function; the file system it
  leaves behind stays.
\<close>

type_synonym subgraphs = "(string \<times> subgraph_data) list"

fun build_loop ::
  "'g geom_ops \<Rightarrow> 'g data \<Rightarrow> filesystem \<Rightarrow> subgraphs \<Rightarrow> dict list \<Rightarrow> 'g neighborhood_row list \<Rightarrow>
   filesystem \<times> (error + (subgraphs \<times> dict list))" where
  "build_loop ops d fs subgraphs road_network_nodes [] = (fs, Inr (subgraphs, road_network_nodes))"
| "build_loop ops d fs subgraphs road_network_nodes (nb # rest) =
     (let lie_name = LIE_NAME nb;
          subgraph_path = subgraph_path_of lie_name
      in
        if files fs subgraph_path \<noteq> None then
          (case load_pickle fs subgraph_path of
             Inl e \<Rightarrow> (fs, Inl e)
           | Inr sd \<Rightarrow> build_loop ops d fs (AList.update lie_name sd subgraphs) road_network_nodes rest)
        else
          (case construct_subgraph ops d nb of
             Inl e \<Rightarrow> (fs, Inl e)
           | Inr (sd, road_nodes) \<Rightarrow>
               (case dump_pickle fs subgraph_path sd of
                  (fs', Some e) \<Rightarrow> (fs', Inl e)
                | (fs', None) \<Rightarrow>
                    build_loop ops d fs' (AList.update lie_name sd subgraphs)
                      (road_network_nodes @ road_nodes) rest)))"

definition build_graph ::
  "'g geom_ops \<Rightarrow> 'g data \<Rightarrow> filesystem \<Rightarrow> filesystem \<times> (error + (subgraphs \<times> dict list))" where
  "build_graph ops d fs = build_loop ops d fs [] [] (map snd (neighborhoods d))"

subsection \<open>\<open>main\<close>, through Stage 2\<close>

text \<open>
  \<open>main\<close> runs the stages inside one \<open>try\<close>; its \<open>except Exception\<close> handler prints
  \<open>Error during analysis: ...\<close> with the traceback and \<open>main\<close> returns. The model starts
  from the \<open>data\<close> that Stage 1 returned and stops when Stage 2 has returned or raised.
\<close>

datatype run = Stage2_returned subgraphs "dict list" | Error_during_analysis error

definition main_stage2 :: "'g geom_ops \<Rightarrow> 'g data \<Rightarrow> filesystem \<Rightarrow> filesystem \<times> run" where
  "main_stage2 ops d fs =
     (case build_graph ops d fs of
        (fs', Inl e) \<Rightarrow> (fs', Error_during_analysis e)
      | (fs', Inr (subgraphs, road_network_nodes)) \<Rightarrow> (fs', Stage2_returned subgraphs road_network_nodes))"

section \<open>Notions used in the statements\<close>

text \<open>Reading cells: the float a numeric cell holds, and the kinds of cell.\<close>

definition float_of :: "val \<Rightarrow> real option" where
  "float_of v = (case v of Num x \<Rightarrow> Some x | _ \<Rightarrow> None)"

definition is_num :: "val \<Rightarrow> bool" where
  "is_num v = (case v of Num x \<Rightarrow> True | _ \<Rightarrow> False)"

definition is_str :: "val \<Rightarrow> bool" where
  "is_str v = (case v of Str s \<Rightarrow> True | _ \<Rightarrow> False)"

definition num_or :: "real \<Rightarrow> val \<Rightarrow> real" where
  "num_or d v = (case v of Num x \<Rightarrow> x | _ \<Rightarrow> d)"

text \<open>One element of \<open>walkability_series\<close>, and the element computed from one row.\<close>

definition score_elem ::
  "real option \<Rightarrow> real option \<Rightarrow> real option \<Rightarrow> real option \<Rightarrow> real option \<Rightarrow> real option \<Rightarrow> real option" where
  "score_elem r c e n t k =
     clip_upper
       (fadd (fadd (fadd (fdiv (fadd (fadd (fmul r 0.4) (fmul c 0.3)) (fmul e 0.2)) 100)
                         (fmul (fmul n 0.5) 0.4))
                   (fmul (clip_upper (fdiv t 100) 1.0) 0.2))
             (fmul (clip_upper (fdiv k 20) 1.0) 0.2)) 1.0"

definition row_score :: "dict \<Rightarrow> real option" where
  "row_score r =
     score_elem (float_of (cell r ''land_use_residential_percent''))
                (float_of (cell r ''land_use_commercial_percent''))
                (float_of (cell r ''land_use_education_percent''))
                (float_of (fillna 0.0 (cell r ''ndvi_mean'')))
                (float_of (cell r ''tree_count''))
                (float_of (cell r ''transit_count''))"

text \<open>The mask \<open>nodes_df['type'] == 'neighborhood'\<close> on one row.\<close>

definition is_neighborhood :: "dict \<Rightarrow> bool" where
  "is_neighborhood r \<longleftrightarrow> cell r ''type'' = Str ''neighborhood''"

text \<open>A row after the column \<open>walkability_rule\<close> has been initialised where it was absent.\<close>

definition with_default :: "DataFrame \<Rightarrow> dict \<Rightarrow> dict" where
  "with_default df r =
     (if ''walkability_rule'' \<in> set (columns df) then r
      else AList.update ''walkability_rule'' (Num 0.0) r)"

text \<open>The six columns the score is computed from, and a row whose cells in them are numbers
  (\<open>ndvi_mean\<close> may be missing).\<close>

definition score_columns :: "string list" where
  "score_columns =
     [''land_use_residential_percent'', ''land_use_commercial_percent'',
      ''land_use_education_percent'', ''ndvi_mean'', ''tree_count'', ''transit_count'']"

definition numeric_attributes :: "dict \<Rightarrow> bool" where
  "numeric_attributes r \<longleftrightarrow>
     is_num (cell r ''land_use_residential_percent'') \<and>
     is_num (cell r ''land_use_commercial_percent'') \<and>
     is_num (cell r ''land_use_education_percent'') \<and>
     \<not> is_str (cell r ''ndvi_mean'') \<and>
     is_num (cell r ''tree_count'') \<and>
     is_num (cell r ''transit_count'')"

text \<open>The float a cell denotes, and the float closed form at the attributes of a row.\<close>

definition f64_of :: "val \<Rightarrow> f64" where
  "f64_of v = (case v of Num x \<Rightarrow> round64 x | _ \<Rightarrow> NaN64)"

definition row_closed_form64 :: "dict \<Rightarrow> f64" where
  "row_closed_form64 r =
     walkability_closed_form64
       (num_or 0 (cell r ''land_use_residential_percent''))
       (num_or 0 (cell r ''land_use_commercial_percent''))
       (num_or 0 (cell r ''land_use_education_percent''))
       (num_or 0 (cell r ''ndvi_mean''))
       (num_or 0 (cell r ''tree_count''))
       (num_or 0 (cell r ''transit_count''))"

text \<open>Three tables for concrete runs: a neighborhood row with given attributes beside a tree
  row, a table that already carries the score column, and a table with a single tree row.\<close>

definition example_table :: "val \<Rightarrow> val \<Rightarrow> val \<Rightarrow> val \<Rightarrow> val \<Rightarrow> val \<Rightarrow> DataFrame" where
  "example_table r c e n t k =
     DataFrame_of
       [[(''vertex'', Str ''neighborhood_A''), (''type'', Str ''neighborhood''),
         (''land_use_residential_percent'', r), (''land_use_commercial_percent'', c),
         (''land_use_education_percent'', e), (''ndvi_mean'', n),
         (''tree_count'', t), (''transit_count'', k)],
        [(''vertex'', Str ''tree_0''), (''type'', Str ''tree'')]]"

definition scored_table :: DataFrame where
  "scored_table =
     \<lparr>columns = [''vertex'', ''type'', ''walkability_rule''],
      rows = [[(''vertex'', Str ''building_0''), (''type'', Str ''building''),
               (''walkability_rule'', Num 0.7)]]\<rparr>"

definition tree_table :: DataFrame where
  "tree_table =
     \<lparr>columns = [''vertex'', ''type''],
      rows = [[(''vertex'', Str ''tree_0''), (''type'', Str ''tree'')]]\<rparr>"

text \<open>The characters \<open>str_nat\<close> produces.\<close>

definition is_digit :: "char \<Rightarrow> bool" where
  "is_digit c \<longleftrightarrow> 48 \<le> (of_char c :: nat) \<and> (of_char c :: nat) \<le> 57"

text \<open>
  Stage 2: the selection predicates of the loop body on one row (the buffer distance is the
  constant 200 of the source), the geometry-type test of the first road loop, the two
  identities of a road label, the row a position denotes, and the two nodes the road loops
  emit for a label.
\<close>

definition in_buffer :: "'g geom_ops \<Rightarrow> 'g neighborhood_row \<Rightarrow> ('g, 'z) feature_scheme \<Rightarrow> bool" where
  "in_buffer ops nb r \<longleftrightarrow> g_within ops (geometry r) (g_buffer ops (geometry nb) 200)"

definition meets_buffer :: "'g geom_ops \<Rightarrow> 'g neighborhood_row \<Rightarrow> ('g, 'z) feature_scheme \<Rightarrow> bool" where
  "meets_buffer ops nb r \<longleftrightarrow> g_intersects ops (geometry r) (g_buffer ops (geometry nb) 200)"

definition is_LineString :: "'g geom_ops \<Rightarrow> ('g, 'z) feature_scheme \<Rightarrow> bool" where
  "is_LineString ops r \<longleftrightarrow> g_geom_type ops (geometry r) = ''LineString''"

definition road_ids :: "int \<Rightarrow> string list" where
  "road_ids i = [''road_start_'' @ str_int i, ''road_end_'' @ str_int i]"

definition row_at :: "'r frame \<Rightarrow> int \<Rightarrow> 'r" where
  "row_at gdf i = projr (iloc (map snd gdf) i)"

definition endpoint_nodes :: "'g road_row frame \<Rightarrow> int \<Rightarrow> dict list" where
  "endpoint_nodes roads_gdf i = map (\<lambda>node_id. road_node node_id (row_at roads_gdf i)) (road_ids i)"

subsection \<open>A small planar geometry for concrete runs\<close>

text \<open>
  A shape is a geometry type name with a coordinate list and is compared through its
  bounding box: the buffer is the box grown by the distance, \<open>within\<close> asks for every
  coordinate inside the other box, \<open>intersects\<close> for one of them. The town has one
  neighborhood \<open>A\<close> on the square from (0, 0) to (100, 100), so its buffer is the box from
  (-200, -200) to (300, 300). The features of the town lie beside the straight side
  \<open>x = 300\<close> of the buffer, away from its corners, which a planar buffer rounds: building
  0 lies inside, building 1 far outside, building 2 touches the side from outside; road 0
  is a \<open>LineString\<close> and road 1 a \<open>MultiLineString\<close>, and both cross the side, starting
  inside and ending outside; the tree is inside and the bus stop just outside.
\<close>

datatype shape = Shape string "(real \<times> real) list"

fun bbox :: "(real \<times> real) list \<Rightarrow> ((real \<times> real) \<times> (real \<times> real)) option" where
  "bbox [] = None"
| "bbox [p] = Some (p, p)"
| "bbox (p # q # ps) =
     (case bbox (q # ps) of
        None \<Rightarrow> None
      | Some (lo, hi) \<Rightarrow>
          Some ((min (fst p) (fst lo), min (snd p) (snd lo)), (max (fst p) (fst hi), max (snd p) (snd hi))))"

definition shape_coords :: "shape \<Rightarrow> (real \<times> real) list" where
  "shape_coords s = (case s of Shape t cs \<Rightarrow> cs)"

definition in_bbox :: "shape \<Rightarrow> real \<times> real \<Rightarrow> bool" where
  "in_bbox s p =
     (case bbox (shape_coords s) of
        None \<Rightarrow> False
      | Some (lo, hi) \<Rightarrow> fst lo \<le> fst p \<and> fst p \<le> fst hi \<and> snd lo \<le> snd p \<and> snd p \<le> snd hi)"

definition box_ops :: "shape geom_ops" where
  "box_ops =
     \<lparr>g_is_valid = (\<lambda>s. shape_coords s \<noteq> []),
      g_buffer = (\<lambda>s dist. case bbox (shape_coords s) of
                     None \<Rightarrow> s
                   | Some (lo, hi) \<Rightarrow>
                       Shape ''Polygon'' [(fst lo - dist, snd lo - dist), (fst hi + dist, snd hi + dist)]),
      g_within = (\<lambda>a b. shape_coords a \<noteq> [] \<and> list_all (in_bbox b) (shape_coords a)),
      g_intersects = (\<lambda>a b. list_ex (in_bbox b) (shape_coords a)),
      g_geom_type = (\<lambda>s. case s of Shape t cs \<Rightarrow> t),
      g_coords = shape_coords\<rparr>"

definition town_nb :: "shape neighborhood_row" where
  "town_nb =
     \<lparr>geometry = Shape ''Polygon'' [(0, 0), (100, 100)],
      LIE_NAME = ''A'', population_2024 = Num 1000,
      land_use_residential_percent = Num 100, land_use_commercial_percent = Num 0,
      land_use_education_percent = Num 0, ndvi_mean = NaN,
      tree_count = Num 0, transit_count = Num 0\<rparr>"

definition town :: "shape data" where
  "town =
     \<lparr>neighborhoods = [(0, town_nb)],
      buildings =
        [(0, \<lparr>geometry = Shape ''Polygon'' [(10, 10), (20, 20)], building = Str ''house'', area_m2 = Num 100\<rparr>),
         (1, \<lparr>geometry = Shape ''Polygon'' [(500, 500), (510, 510)], building = Str ''shop'', area_m2 = Num 100\<rparr>),
         (2, \<lparr>geometry = Shape ''Polygon'' [(300, 40), (310, 60)], building = Str ''shed'', area_m2 = Num 100\<rparr>)],
      roads =
        [(0, \<lparr>geometry = Shape ''LineString'' [(250, 50), (400, 50)],
              road_class_attr = Str ''residential'', length_m = Num 150\<rparr>),
         (1, \<lparr>geometry = Shape ''MultiLineString'' [(250, 60), (400, 60)],
              road_class_attr = Str ''footway'', length_m = Num 150\<rparr>)],
      trees = [(0, \<lparr>geometry = Shape ''Point'' [(5, 5)]\<rparr>)],
      transit = [(0, \<lparr>geometry = Shape ''Point'' [(301, 0)], transit_class_attr = Str ''bus_stop''\<rparr>)]\<rparr>"

text \<open>The cells \<open>vertex\<close> and \<open>type\<close> of a node row.\<close>

definition vertex :: "dict \<Rightarrow> val" where
  "vertex r = cell r ''vertex''"

definition node_type :: "dict \<Rightarrow> val" where
  "node_type r = cell r ''type''"

text \<open>What the loop body builds for neighborhood \<open>A\<close> of the town, and a store holding a
  tree layer with labels 5, 7, 9 whose middle row has an invalid (empty) geometry.\<close>

definition town_road_nodes :: "dict list" where
  "town_road_nodes =
     [[(''vertex'', Str ''road_start_0''), (''type'', Str ''road''),
       (''road_class'', Str ''residential''), (''length_m'', Num 150)],
      [(''vertex'', Str ''road_end_0''), (''type'', Str ''road''),
       (''road_class'', Str ''residential''), (''length_m'', Num 150)]]"

definition town_subgraph :: subgraph_data where
  "town_subgraph =
     \<lparr>nodes = DataFrame_of
        ([neighborhood_node town_nb,
          [(''vertex'', Str ''building_0''), (''type'', Str ''building''),
           (''building_type'', Str ''house''), (''area_m2'', Num 100)]]
         @ town_road_nodes
         @ [[(''vertex'', Str ''tree_0''), (''type'', Str ''tree'')]]),
      edges = None\<rparr>"

definition tree_store :: "shape feature frame store" where
  "tree_store =
     [[(5, \<lparr>geometry = Shape ''Point'' [(0, 0)]\<rparr>),
       (7, \<lparr>geometry = Shape ''Point'' []\<rparr>),
       (9, \<lparr>geometry = Shape ''Point'' [(1, 1)]\<rparr>)]]"





definition locked_disk :: filesystem where
  "locked_disk =
     \<lparr>files = (\<lambda>p. None), open_fails = (\<lambda>p. p = subgraph_path_of ''A''), dump_fails = (\<lambda>p. False)\<rparr>"

definition town_named :: "string \<Rightarrow> shape neighborhood_row" where
  "town_named n = town_nb\<lparr>LIE_NAME := n\<rparr>"

definition three_towns :: "shape data" where
  "three_towns = town\<lparr>neighborhoods := [(0, town_named ''B''), (1, town_named ''A''), (2, town_named ''C'')]\<rparr>"

definition town_subgraph_named :: "string \<Rightarrow> subgraph_data" where
  "town_subgraph_named n =
     \<lparr>nodes = DataFrame_of
        ([neighborhood_node (town_named n),
          [(''vertex'', Str ''building_0''), (''type'', Str ''building''),
           (''building_type'', Str ''house''), (''area_m2'', Num 100)]]
         @ town_road_nodes
         @ [[(''vertex'', Str ''tree_0''), (''type'', Str ''tree'')]]),
      edges = None\<rparr>"

section \<open>Properties of the scorer\<close>

subsection \<open>Sequencing, series and masks\<close>

lemma and_then_simps [simp]:
  "and_then (Inl e) f = Inl e"
  "and_then (Inr v) f = f v"
  by (simp_all add: and_then_def)

lemma and_then_eq_Inr:
  "and_then x f = Inr y \<longleftrightarrow> (\<exists>v. x = Inr v \<and> f v = Inr y)"
  by (cases x) simp_all

lemma to_float_Inr: "to_float v = Inr x \<Longrightarrow> x = float_of v \<and> (\<forall>s. v \<noteq> Str s)"
  by (cases v) (simp_all add: to_float_def float_of_def)

lemma series_float_Inr:
  "series_float vs = Inr xs \<Longrightarrow> xs = map float_of vs"
proof (induction vs arbitrary: xs)
  case Nil
  then show ?case by simp
next
  case (Cons v vs)
  then show ?case
    by (auto simp: and_then_eq_Inr dest: to_float_Inr)
qed

lemma series_float_total:
  "\<forall>v \<in> set vs. \<not> is_str v \<Longrightarrow> series_float vs = Inr (map float_of vs)"
proof (induction vs)
  case Nil
  then show ?case by simp
next
  case (Cons v vs)
  then have "to_float v = Inr (float_of v)"
    by (cases v) (simp_all add: to_float_def float_of_def is_str_def)
  with Cons show ?case by simp
qed

lemma sadd_map: "sadd (map f xs) (map g xs) = map (\<lambda>x. fadd (f x) (g x)) xs"
  by (induction xs) (simp_all add: sadd_def)

lemma smul_map: "smul (map f xs) k = map (\<lambda>x. fmul (f x) k) xs"
  by (simp add: smul_def)

lemma sdiv_map: "sdiv (map f xs) k = map (\<lambda>x. fdiv (f x) k) xs"
  by (simp add: sdiv_def)

lemma sclip_map: "sclip (map f xs) u = map (\<lambda>x. clip_upper (f x) u) xs"
  by (simp add: sclip_def)

lemma walkability_series_map:
  "walkability_series (map f1 xs) (map f2 xs) (map f3 xs) (map f4 xs) (map f5 xs) (map f6 xs)
   = map (\<lambda>x. score_elem (f1 x) (f2 x) (f3 x) (f4 x) (f5 x) (f6 x)) xs"
  by (simp add: walkability_series_def Let_def sadd_map smul_map sdiv_map sclip_map score_elem_def)


lemma clip_upper_Some: "clip_upper (Some x) u = Some (min x u)"
  by (simp add: clip_upper_def min_def)

lemma score_elem_Some:
  "score_elem (Some r) (Some c) (Some e) (Some n) (Some t) (Some k)
   = Some (walkability_closed_form r c e n t k)"
  unfolding score_elem_def walkability_closed_form_def
  by (simp add: fmul_def fdiv_def fadd_def clip_upper_Some mult.commute)

lemma length_loc_set [simp]: "length (loc_set ms c vs rs) = length rs"
  by (induction ms c vs rs rule: loc_set.induct) simp_all

lemma loc_set_nth:
  "length ms = length rs \<Longrightarrow> length rs' = length rs \<Longrightarrow> i < length rs \<Longrightarrow>
   loc_set ms c (map f (mask_rows ms rs)) rs' ! i
     = (if ms ! i then AList.update c (f (rs ! i)) (rs' ! i) else rs' ! i)"
proof (induction ms arbitrary: rs rs' i)
  case Nil
  then show ?case by simp
next
  case (Cons m ms)
  then obtain r rt where rs: "rs = r # rt" by (cases rs) auto
  from Cons rs obtain r' rt' where rs': "rs' = r' # rt'" by (cases rs') auto
  show ?case
  proof (cases i)
    case 0
    then show ?thesis using rs rs' by (cases m) simp_all
  next
    case (Suc j)
    then show ?thesis using rs rs' Cons by (cases m) simp_all
  qed
qed

lemma cell_update: "cell (AList.update c v d) c' = (if c' = c then v else cell d c')"
  by (simp add: cell_def update_conv')

lemma map_of_update_other: "c \<noteq> k \<Longrightarrow> map_of (AList.update k v d) c = map_of d c"
  by (simp add: update_conv')

lemma cell_with_default:
  "cell (with_default df r) c =
     (if c = ''walkability_rule'' \<and> ''walkability_rule'' \<notin> set (columns df) then Num 0 else cell r c)"
  by (simp add: with_default_def cell_update)

lemma mask_rows_Nil:
  "length ms = length rs \<Longrightarrow> mask_rows ms rs = [] \<Longrightarrow> i < length rs \<Longrightarrow> \<not> ms ! i"
proof (induction ms rs arbitrary: i rule: mask_rows.induct)
  case (1 m ms r rs)
  then show ?case by (cases i) (auto split: if_splits)
qed simp_all

lemma mask_rows_map: "mask_rows (map P rs) rs = filter P rs"
  by (induction rs) simp_all

lemma type_mask:
  "map (\<lambda>v. v = Str ''neighborhood'') (map (\<lambda>r. cell r ''type'') rs) = map is_neighborhood rs"
  by (simp add: is_neighborhood_def)

subsection \<open>What a successful call writes, and when the call succeeds\<close>

lemma compute_rows:
  assumes "compute_walkability_scores df = Inr out"
  shows "''type'' \<in> set (columns df)"
    and "columns out = (if ''walkability_rule'' \<in> set (columns df) then columns df
                        else columns df @ [''walkability_rule''])"
    and "length (rows out) = length (rows df)"
    and "i < length (rows df) \<Longrightarrow>
         rows out ! i =
           (if is_neighborhood (rows df ! i)
            then AList.update ''walkability_rule'' (of_float (row_score (rows df ! i)))
                   (with_default df (rows df ! i))
            else with_default df (rows df ! i))"
proof -
  let ?wr = "''walkability_rule''"
  let ?mask = "map (\<lambda>v. v = Str ''neighborhood'') (map (\<lambda>r. cell r ''type'') (rows df))"
  let ?base = "if ?wr \<notin> set (columns df) then setitem df ?wr (Num 0.0) else df"
  show ty: "''type'' \<in> set (columns df)"
    using assms by (auto simp: compute_walkability_scores_def getitem_def split: if_splits)
  have lenm: "length ?mask = length (rows df)" by simp
  have base_rows: "rows ?base = map (with_default df) (rows df)"
  proof (cases "?wr \<in> set (columns df)")
    case True
    then have "with_default df = (\<lambda>r. r)" by (simp add: with_default_def fun_eq_iff)
    with True show ?thesis by simp
  next
    case False
    then have "with_default df = AList.update ?wr (Num 0.0)"
      by (simp add: with_default_def fun_eq_iff)
    with False show ?thesis by (simp add: setitem_def)
  qed
  have base_cols: "columns ?base = (if ?wr \<in> set (columns df) then columns df else columns df @ [?wr])"
    by (simp add: setitem_def)
  have mask_nth: "\<And>j. j < length (rows df) \<Longrightarrow> ?mask ! j = is_neighborhood (rows df ! j)"
    by (simp add: is_neighborhood_def)
  show "columns out = (if ?wr \<in> set (columns df) then columns df else columns df @ [?wr])"
    and "length (rows out) = length (rows df)"
    and "i < length (rows df) \<Longrightarrow>
         rows out ! i =
           (if is_neighborhood (rows df ! i)
            then AList.update ?wr (of_float (row_score (rows df ! i))) (with_default df (rows df ! i))
            else with_default df (rows df ! i))"
  proof -
    consider (empty) "mask_rows ?mask (rows df) = []" | (some) "mask_rows ?mask (rows df) \<noteq> []"
      by blast
    then have "columns out = (if ?wr \<in> set (columns df) then columns df else columns df @ [?wr])
       \<and> length (rows out) = length (rows df)
       \<and> (i < length (rows df) \<longrightarrow> rows out ! i =
           (if is_neighborhood (rows df ! i)
            then AList.update ?wr (of_float (row_score (rows df ! i))) (with_default df (rows df ! i))
            else with_default df (rows df ! i)))"
    proof cases
      case empty
      with assms ty have out: "out = ?base"
        by (simp add: compute_walkability_scores_def getitem_def Let_def)
      have "\<And>j. j < length (rows df) \<Longrightarrow> \<not> is_neighborhood (rows df ! j)"
        using mask_rows_Nil [OF lenm empty] mask_nth by blast
      then show ?thesis
        unfolding out using base_rows base_cols by simp
    next
      case some
      let ?nb = "mask_rows ?mask (rows df)"
      from assms ty some obtain r c e n t k where
        sf: "series_float (map (\<lambda>r. cell r ''land_use_residential_percent'') ?nb) = Inr r"
            "series_float (map (\<lambda>r. cell r ''land_use_commercial_percent'') ?nb) = Inr c"
            "series_float (map (\<lambda>r. cell r ''land_use_education_percent'') ?nb) = Inr e"
            "series_float (map (fillna 0.0) (map (\<lambda>r. cell r ''ndvi_mean'') ?nb)) = Inr n"
            "series_float (map (\<lambda>r. cell r ''tree_count'') ?nb) = Inr t"
            "series_float (map (\<lambda>r. cell r ''transit_count'') ?nb) = Inr k"
        and out: "out = ?base\<lparr>rows := loc_set ?mask ?wr (map of_float (walkability_series r c e n t k))
                     (rows ?base)\<rparr>"
        by (auto simp: compute_walkability_scores_def getitem_def Let_def and_then_eq_Inr
            split: if_splits)
      have ws: "map of_float (walkability_series r c e n t k) = map (\<lambda>x. of_float (row_score x)) ?nb"
        using sf by (auto dest!: series_float_Inr simp: walkability_series_map row_score_def o_def)
      have rows_out: "rows out = loc_set ?mask ?wr (map (\<lambda>x. of_float (row_score x)) ?nb)
                                   (map (with_default df) (rows df))"
        unfolding out using ws base_rows by simp
      have cols_out: "columns out = columns ?base" unfolding out by simp
      show ?thesis
        unfolding rows_out cols_out base_cols
        using loc_set_nth [OF lenm, of "map (with_default df) (rows df)" i ?wr
                "\<lambda>x. of_float (row_score x)"] mask_nth
        by simp
    qed
    then show "columns out = (if ?wr \<in> set (columns df) then columns df else columns df @ [?wr])"
      and "length (rows out) = length (rows df)"
      and "i < length (rows df) \<Longrightarrow>
         rows out ! i =
           (if is_neighborhood (rows df ! i)
            then AList.update ?wr (of_float (row_score (rows df ! i))) (with_default df (rows df ! i))
            else with_default df (rows df ! i))"
      by blast+
  qed
qed

lemma compute_total:
  assumes ty: "''type'' \<in> set (columns df)"
    and cols: "set score_columns \<subseteq> set (columns df)"
    and nostr: "\<forall>r \<in> set (rows df). is_neighborhood r \<longrightarrow> (\<forall>c \<in> set score_columns. \<not> is_str (cell r c))"
  shows "\<exists>out. compute_walkability_scores df = Inr out"
proof -
  let ?nb = "filter is_neighborhood (rows df)"
  have ns: "\<And>c. c \<in> set score_columns \<Longrightarrow>
      series_float (map (\<lambda>r. cell r c) ?nb) = Inr (map float_of (map (\<lambda>r. cell r c) ?nb))"
    by (rule series_float_total) (use nostr in auto)
  have fill: "series_float (map (fillna 0.0) (map (\<lambda>r. cell r ''ndvi_mean'') ?nb))
      = Inr (map float_of (map (fillna 0.0) (map (\<lambda>r. cell r ''ndvi_mean'') ?nb)))"
  proof (rule series_float_total, clarsimp)
    fix r assume "r \<in> set (rows df)" "is_neighborhood r" "is_str (fillna 0 (cell r ''ndvi_mean''))"
    moreover have "\<not> is_str (cell r ''ndvi_mean'')"
      using nostr calculation(1,2) by (simp add: score_columns_def)
    ultimately show False
      by (cases "cell r ''ndvi_mean''") (simp_all add: fillna_def is_str_def)
  qed
  show ?thesis
    using ty cols fill ns [of "''land_use_residential_percent''"]
      ns [of "''land_use_commercial_percent''"] ns [of "''land_use_education_percent''"]
      ns [of "''tree_count''"] ns [of "''transit_count''"]
    by (simp add: compute_walkability_scores_def getitem_def type_mask mask_rows_map Let_def
        score_columns_def del: map_map)
qed

lemma compute_no_neighborhood:
  assumes "''type'' \<in> set (columns df)" "\<forall>r \<in> set (rows df). \<not> is_neighborhood r"
  shows "compute_walkability_scores df =
           Inr (if ''walkability_rule'' \<notin> set (columns df)
                then setitem df ''walkability_rule'' (Num 0.0) else df)"
proof -
  have "filter is_neighborhood (rows df) = []"
    using assms(2) by (simp add: filter_empty_conv)
  then show ?thesis
    using assms(1)
    by (simp add: compute_walkability_scores_def getitem_def type_mask mask_rows_map Let_def
        del: map_map)
qed

lemma float_of_num: "is_num v \<Longrightarrow> float_of v = Some (num_or d v)"
  by (cases v) (simp_all add: is_num_def float_of_def num_or_def)

lemma float_of_fillna: "\<not> is_str v \<Longrightarrow> float_of (fillna d v) = Some (num_or d v)"
  by (cases v) (simp_all add: is_str_def float_of_def num_or_def fillna_def)

lemma is_num_not_str: "is_num v \<Longrightarrow> \<not> is_str v"
  by (cases v) (simp_all add: is_num_def is_str_def)

lemma row_score_num:
  assumes "is_num (cell r ''land_use_residential_percent'')"
    "is_num (cell r ''land_use_commercial_percent'')"
    "is_num (cell r ''land_use_education_percent'')"
    "\<not> is_str (cell r ''ndvi_mean'')"
    "is_num (cell r ''tree_count'')"
    "is_num (cell r ''transit_count'')"
  shows "row_score r = Some (walkability_closed_form
           (num_or 0 (cell r ''land_use_residential_percent''))
           (num_or 0 (cell r ''land_use_commercial_percent''))
           (num_or 0 (cell r ''land_use_education_percent''))
           (num_or 0 (cell r ''ndvi_mean''))
           (num_or 0 (cell r ''tree_count''))
           (num_or 0 (cell r ''transit_count'')))"
  using assms
  by (simp add: row_score_def float_of_num [where d = 0] float_of_fillna score_elem_Some)




section \<open>Properties of float64 arithmetic\<close>

subsection \<open>Rounding is to a nearest float of the right exponent\<close>

lemma pow2_powi: "pow2 e = 2 powi e"
  by (simp add: pow2_def power_int_def inverse_eq_divide power_one_over)

lemma pow2_pos: "0 < pow2 e"
  by (simp add: pow2_powi)

lemma pow2_Suc: "pow2 (e + 1) = 2 * pow2 e"
  by (simp add: pow2_powi power_int_add)

lemma pow2_pred: "2 * pow2 (e - 1) = pow2 e"
  using pow2_Suc [of "e - 1"] by simp

lemma binade_bounds:
  "pow2 (- int n) \<le> x \<Longrightarrow> x < pow2 (int n + 1) \<Longrightarrow>
   pow2 (binade n x) \<le> x \<and> x < 2 * pow2 (binade n x)"
proof (induction n arbitrary: x)
  case 0
  then show ?case by (simp add: pow2_def)
next
  case (Suc n)
  consider (small) "x < 1" | (large) "2 \<le> x" | (mid) "1 \<le> x" "x < 2"
    by linarith
  then show ?case
  proof cases
    case small
    have "pow2 (- int n) \<le> 2 * x"
      using Suc.prems(1) pow2_Suc [of "- int (Suc n)"] by simp
    moreover have "2 * x < pow2 (int n + 1)"
    proof -
      have "(1::real) \<le> pow2 (int n)" by (simp add: pow2_def)
      then have "2 \<le> pow2 (int n + 1)" by (simp add: pow2_Suc)
      with small show ?thesis by linarith
    qed
    ultimately have "pow2 (binade n (2 * x)) \<le> 2 * x \<and> 2 * x < 2 * pow2 (binade n (2 * x))"
      by (rule Suc.IH)
    then show ?thesis
      using small pow2_pred [of "binade n (2 * x)"] by simp
  next
    case large
    have "pow2 (- int n) \<le> 1" by (simp add: pow2_def field_simps)
    with large have "pow2 (- int n) \<le> x / 2" by linarith
    moreover have "x / 2 < pow2 (int n + 1)"
      using Suc.prems(2) pow2_Suc [of "int n + 1"] by (simp add: add.commute)
    ultimately have "pow2 (binade n (x / 2)) \<le> x / 2 \<and> x / 2 < 2 * pow2 (binade n (x / 2))"
      by (rule Suc.IH)
    then show ?thesis
      using large by (simp add: pow2_Suc)
  next
    case mid
    then show ?thesis by (simp add: pow2_def)
  qed
qed

lemma rne_nearest: "\<bar>of_int (rne r) - r\<bar> \<le> 1 / 2"
proof -
  define f where "f = \<lfloor>r\<rfloor>"
  have "of_int f \<le> r" "r < of_int f + 1"
    unfolding f_def by linarith+
  then show ?thesis
    unfolding rne_def Let_def f_def [symmetric] by (simp add: abs_if)
qed

lemma pow2_mono: "a \<le> b \<Longrightarrow> pow2 a \<le> pow2 b"
  unfolding pow2_powi by (rule power_int_increasing) simp_all

lemma pow2_1024: "pow2 1024 = 2 ^ 1024"
  by (simp add: pow2_def)

lemma round64_Fin:
  assumes "round64 x = Fin y" "x \<noteq> 0"
  shows "\<bar>x\<bar> < pow2 1024"
    and "y = of_int (rne (x / pow2 (max (binade 1100 \<bar>x\<bar>) (- 1022) - 52))) *
             pow2 (max (binade 1100 \<bar>x\<bar>) (- 1022) - 52)"
proof -
  show "\<bar>x\<bar> < pow2 1024"
  proof (rule ccontr)
    assume "\<not> \<bar>x\<bar> < pow2 1024"
    then have "2 ^ 1024 \<le> \<bar>x\<bar>" unfolding pow2_1024 by simp
    then have "round64 x = Inf (x < 0)"
      unfolding round64_def using assms(2) by (simp only: if_True if_False)
    with assms(1) show False by simp
  qed
  then have small: "\<not> 2 ^ 1024 \<le> \<bar>x\<bar>" unfolding pow2_1024 by simp
  show "y = of_int (rne (x / pow2 (max (binade 1100 \<bar>x\<bar>) (- 1022) - 52))) *
             pow2 (max (binade 1100 \<bar>x\<bar>) (- 1022) - 52)"
    using assms(1) unfolding round64_def Let_def
    by (simp only: assms(2) small if_False split: if_splits) (simp_all only: f64.inject f64.distinct)
qed

lemma round64_nearest:
  assumes "round64 x = Fin y" "x \<noteq> 0"
  shows "\<exists>e m. - 1022 \<le> e \<and> y = of_int m * pow2 (e - 52) \<and> \<bar>y - x\<bar> \<le> pow2 (e - 52) / 2 \<and>
               (pow2 (- 1022) \<le> \<bar>x\<bar> \<longrightarrow> pow2 e \<le> \<bar>x\<bar> \<and> \<bar>x\<bar> < 2 * pow2 e)"
proof -
  define b where "b = binade 1100 \<bar>x\<bar>"
  define e where "e = max b (- 1022)"
  define u where "u = pow2 (e - 52)"
  define m where "m = rne (x / u)"
  have small: "\<bar>x\<bar> < pow2 1024" and y: "y = of_int m * u"
    using round64_Fin [OF assms] unfolding m_def u_def e_def b_def by blast+
  have u: "0 < u" unfolding u_def by (rule pow2_pos)
  have "\<bar>of_int m - x / u\<bar> \<le> 1 / 2" unfolding m_def by (rule rne_nearest)
  then have "\<bar>of_int m - x / u\<bar> * u \<le> 1 / 2 * u"
    using u by (intro mult_right_mono) simp_all
  moreover have "\<bar>of_int m - x / u\<bar> * u = \<bar>y - x\<bar>"
  proof -
    have "\<bar>of_int m - x / u\<bar> * u = \<bar>(of_int m - x / u) * u\<bar>"
      using u by (simp add: abs_mult)
    also have "(of_int m - x / u) * u = y - x"
      using u by (simp add: y left_diff_distrib)
    finally show ?thesis .
  qed
  ultimately have err: "\<bar>y - x\<bar> \<le> u / 2" by simp
  have norm: "pow2 e \<le> \<bar>x\<bar> \<and> \<bar>x\<bar> < 2 * pow2 e" if big: "pow2 (- 1022) \<le> \<bar>x\<bar>"
  proof -
    have "pow2 (- int 1100) \<le> pow2 (- 1022)" by (rule pow2_mono) simp
    with big have lo: "pow2 (- int 1100) \<le> \<bar>x\<bar>" by linarith
    have "pow2 1024 \<le> pow2 (int 1100 + 1)" by (rule pow2_mono) simp
    with small have hi: "\<bar>x\<bar> < pow2 (int 1100 + 1)" by linarith
    from binade_bounds [OF lo hi]
    have b: "pow2 b \<le> \<bar>x\<bar>" "\<bar>x\<bar> < 2 * pow2 b"
      unfolding b_def by blast+
    have "- 1022 \<le> b"
    proof (rule ccontr)
      assume "\<not> - 1022 \<le> b"
      then have "b + 1 \<le> - 1022" by simp
      then have "pow2 (b + 1) \<le> pow2 (- 1022)" by (rule pow2_mono)
      with b(2) big show False unfolding pow2_Suc by linarith
    qed
    then have "e = b" unfolding e_def by simp
    with b show ?thesis by simp
  qed
  have "- 1022 \<le> e" unfolding e_def by simp
  with y err norm show ?thesis unfolding u_def by blast
qed

subsection \<open>Evaluation on literals\<close>

lemma binade_numeral:
  "binade (numeral k) x =
     (if x < 1 then binade (pred_numeral k) (2 * x) - 1
      else if 2 \<le> x then binade (pred_numeral k) (x / 2) + 1 else 0)"
  by (simp add: numeral_eq_Suc)

lemmas f64_eval =
  f64_mul_def f64_add_def f64_div_def f64_min_def f64_less_def clip64_def
  round64_def binade_numeral rne_def pow2_def Let_def

lemma round64_literals:
  "round64 0.4 = Fin (3602879701896397 / 9007199254740992)"
  "round64 0.3 = Fin (5404319552844595 / 18014398509481984)"
  "round64 0.2 = Fin (3602879701896397 / 18014398509481984)"
  "round64 0.5 = Fin (1 / 2)"
  "round64 0.6 = Fin (5404319552844595 / 9007199254740992)"
  "round64 0 = Fin 0"
  "round64 1 = Fin 1"
  "round64 10 = Fin 10"
  "round64 20 = Fin 20"
  "round64 40 = Fin 40"
  "round64 100 = Fin 100"
  "round64 120 = Fin 120"
  "round64 200 = Fin 200"
  by (simp_all add: round64_def binade_numeral rne_def pow2_def Let_def)

lemma round64_next_above:
  "round64 (6000000000000001 / 10000000000000000) = Fin (5404319552844596 / 9007199254740992)"
  by (simp add: round64_def binade_numeral rne_def pow2_def Let_def)

lemma closed_form_second: "walkability_closed_form 0 0 0 1.0 200 40 = 0.6"
  by (simp add: walkability_closed_form_def)


section \<open>Properties of the scorer in float64\<close>

lemma f64_mul_commute: "f64_mul a b = f64_mul b a"
  by (cases a; cases b) (auto simp: f64_mul_def mult.commute)

lemma clip64_min: "clip64 a u = f64_min a u"
  by (simp add: clip64_def f64_min_def)

lemma to_f64_total: "\<not> is_str v \<Longrightarrow> to_f64 v = Inr (f64_of v)"
  by (cases v) (simp_all add: to_f64_def f64_of_def is_str_def)

lemma series_f64_total:
  "\<forall>v \<in> set vs. \<not> is_str v \<Longrightarrow> series_f64 vs = Inr (map f64_of vs)"
  by (induction vs) (simp_all add: to_f64_total)

lemma sadd64_map: "sadd64 (map f xs) (map g xs) = map (\<lambda>x. f64_add (f x) (g x)) xs"
  by (induction xs) (simp_all add: sadd64_def)

lemma walkability_series64_map:
  "walkability_series64 (map f1 xs) (map f2 xs) (map f3 xs) (map f4 xs) (map f5 xs) (map f6 xs)
   = map (\<lambda>x.
       clip64
         (f64_add
            (f64_add
               (f64_add
                  (f64_div
                     (f64_add
                        (f64_add (f64_mul (f1 x) (round64 0.4)) (f64_mul (f2 x) (round64 0.3)))
                        (f64_mul (f3 x) (round64 0.2)))
                     (round64 100))
                  (f64_mul (f64_mul (f4 x) (round64 0.5)) (round64 0.4)))
               (f64_mul (clip64 (f64_div (f5 x) (round64 100)) (round64 1.0)) (round64 0.2)))
            (f64_mul (clip64 (f64_div (f6 x) (round64 20)) (round64 1.0)) (round64 0.2)))
         (round64 1.0)) xs"
  by (simp add: walkability_series64_def Let_def sadd64_map smul64_def sdiv64_def sclip64_def)

lemma f64_of_num: "is_num v \<Longrightarrow> f64_of v = round64 (num_or d v)"
  by (cases v) (simp_all add: is_num_def f64_of_def num_or_def)

lemma f64_of_fillna: "\<not> is_str v \<Longrightarrow> f64_of (fillna d v) = round64 (num_or d v)"
  by (cases v) (simp_all add: is_str_def f64_of_def num_or_def fillna_def)

lemma not_str_fillna: "\<not> is_str v \<Longrightarrow> \<not> is_str (fillna d v)"
  by (cases v) (simp_all add: is_str_def fillna_def)

lemma loc_set64_map:
  "loc_set64 (map P rs) (map f (filter P rs)) = map (\<lambda>r. if P r then Some (f r) else None) rs"
  by (induction rs) simp_all

lemma compute64_rows:
  assumes ty: "''type'' \<in> set (columns df)"
    and cols: "set score_columns \<subseteq> set (columns df)"
    and num: "\<forall>r \<in> set (rows df). is_neighborhood r \<longrightarrow> numeric_attributes r"
  shows "compute_walkability_scores64 df =
           Inr (map (\<lambda>r. if is_neighborhood r then Some (row_closed_form64 r) else None) (rows df))"
proof (cases "filter is_neighborhood (rows df) = []")
  case True
  then have "\<forall>r \<in> set (rows df). \<not> is_neighborhood r"
    by (simp add: filter_empty_conv)
  then have "map (\<lambda>r. if is_neighborhood r then Some (row_closed_form64 r) else None) (rows df)
             = map (\<lambda>r. None) (rows df)"
    by simp
  moreover have "compute_walkability_scores64 df = Inr (map (\<lambda>r. None) (rows df))"
    using ty True
    by (simp add: compute_walkability_scores64_def getitem_def type_mask mask_rows_map Let_def
        del: map_map)
  ultimately show ?thesis by simp
next
  case some: False
  let ?nb = "filter is_neighborhood (rows df)"
  have na: "numeric_attributes r" if "r \<in> set ?nb" for r
    using that num by simp
  have ns: "series_f64 (map (\<lambda>r. cell r c) ?nb) = Inr (map f64_of (map (\<lambda>r. cell r c) ?nb))"
    if "c \<in> set score_columns" for c
  proof (rule series_f64_total, clarsimp)
    fix r assume "r \<in> set (rows df)" "is_neighborhood r" "is_str (cell r c)"
    with num that show False
      by (auto simp: numeric_attributes_def score_columns_def dest: is_num_not_str)
  qed
  have fill: "series_f64 (map (fillna 0.0) (map (\<lambda>r. cell r ''ndvi_mean'') ?nb))
      = Inr (map f64_of (map (fillna 0.0) (map (\<lambda>r. cell r ''ndvi_mean'') ?nb)))"
  proof (rule series_f64_total, clarsimp)
    fix r assume "r \<in> set (rows df)" "is_neighborhood r" "is_str (fillna 0 (cell r ''ndvi_mean''))"
    with num not_str_fillna [of "cell r ''ndvi_mean''" 0] show False
      by (auto simp: numeric_attributes_def)
  qed
  have run0: "compute_walkability_scores64 df =
      Inr (loc_set64 (map is_neighborhood (rows df)) (walkability_series64
        (map f64_of (map (\<lambda>r. cell r ''land_use_residential_percent'') ?nb))
        (map f64_of (map (\<lambda>r. cell r ''land_use_commercial_percent'') ?nb))
        (map f64_of (map (\<lambda>r. cell r ''land_use_education_percent'') ?nb))
        (map f64_of (map (fillna 0.0) (map (\<lambda>r. cell r ''ndvi_mean'') ?nb)))
        (map f64_of (map (\<lambda>r. cell r ''tree_count'') ?nb))
        (map f64_of (map (\<lambda>r. cell r ''transit_count'') ?nb))))"
    using ty cols some fill ns [of "''land_use_residential_percent''"]
      ns [of "''land_use_commercial_percent''"] ns [of "''land_use_education_percent''"]
      ns [of "''tree_count''"] ns [of "''transit_count''"]
    by (simp add: compute_walkability_scores64_def getitem_def type_mask mask_rows_map Let_def
        score_columns_def del: map_map)
  have run: "compute_walkability_scores64 df =
      Inr (loc_set64 (map is_neighborhood (rows df)) (walkability_series64
        (map (\<lambda>r. f64_of (cell r ''land_use_residential_percent'')) ?nb)
        (map (\<lambda>r. f64_of (cell r ''land_use_commercial_percent'')) ?nb)
        (map (\<lambda>r. f64_of (cell r ''land_use_education_percent'')) ?nb)
        (map (\<lambda>r. f64_of (fillna 0.0 (cell r ''ndvi_mean''))) ?nb)
        (map (\<lambda>r. f64_of (cell r ''tree_count'')) ?nb)
        (map (\<lambda>r. f64_of (cell r ''transit_count'')) ?nb)))"
    unfolding run0 by (simp add: o_def)
  have elem: "clip64
         (f64_add
            (f64_add
               (f64_add
                  (f64_div
                     (f64_add
                        (f64_add (f64_mul (f64_of (cell r ''land_use_residential_percent'')) (round64 0.4))
                                 (f64_mul (f64_of (cell r ''land_use_commercial_percent'')) (round64 0.3)))
                        (f64_mul (f64_of (cell r ''land_use_education_percent'')) (round64 0.2)))
                     (round64 100))
                  (f64_mul (f64_mul (f64_of (fillna 0.0 (cell r ''ndvi_mean''))) (round64 0.5)) (round64 0.4)))
               (f64_mul (clip64 (f64_div (f64_of (cell r ''tree_count'')) (round64 100)) (round64 1.0)) (round64 0.2)))
            (f64_mul (clip64 (f64_div (f64_of (cell r ''transit_count'')) (round64 20)) (round64 1.0)) (round64 0.2)))
         (round64 1.0) = row_closed_form64 r"
    if "r \<in> set ?nb" for r
  proof -
    from na [OF that] have
      "f64_of (cell r ''land_use_residential_percent'') = round64 (num_or 0 (cell r ''land_use_residential_percent''))"
      "f64_of (cell r ''land_use_commercial_percent'') = round64 (num_or 0 (cell r ''land_use_commercial_percent''))"
      "f64_of (cell r ''land_use_education_percent'') = round64 (num_or 0 (cell r ''land_use_education_percent''))"
      "f64_of (fillna 0.0 (cell r ''ndvi_mean'')) = round64 (num_or 0 (cell r ''ndvi_mean''))"
      "f64_of (cell r ''tree_count'') = round64 (num_or 0 (cell r ''tree_count''))"
      "f64_of (cell r ''transit_count'') = round64 (num_or 0 (cell r ''transit_count''))"
      using f64_of_fillna [of "cell r ''ndvi_mean''" 0]
      by (simp_all add: numeric_attributes_def f64_of_num)
    then show ?thesis
      unfolding row_closed_form64_def walkability_closed_form64_def clip64_min
      by (simp add: f64_mul_commute)
  qed
  have series: "walkability_series64
        (map (\<lambda>r. f64_of (cell r ''land_use_residential_percent'')) ?nb)
        (map (\<lambda>r. f64_of (cell r ''land_use_commercial_percent'')) ?nb)
        (map (\<lambda>r. f64_of (cell r ''land_use_education_percent'')) ?nb)
        (map (\<lambda>r. f64_of (fillna 0.0 (cell r ''ndvi_mean''))) ?nb)
        (map (\<lambda>r. f64_of (cell r ''tree_count'')) ?nb)
        (map (\<lambda>r. f64_of (cell r ''transit_count'')) ?nb) = map row_closed_form64 ?nb"
    unfolding walkability_series64_map using elem by simp
  show ?thesis
    unfolding run series by (rule arg_cong [where f = Inr]) (rule loc_set64_map)
qed

lemma score64_example_table:
  "compute_walkability_scores64
     (example_table (Num r) (Num c) (Num e) (Num n) (Num t) (Num k))
   = Inr [Some (walkability_closed_form64 r c e n t k), None]"
proof -
  let ?df = "example_table (Num r) (Num c) (Num e) (Num n) (Num t) (Num k)"
  have ty: "''type'' \<in> set (columns ?df)"
    and cols: "set score_columns \<subseteq> set (columns ?df)"
    by (simp_all add: example_table_def DataFrame_of_def score_columns_def)
  have num: "\<forall>r \<in> set (rows ?df). is_neighborhood r \<longrightarrow> numeric_attributes r"
    by (simp add: example_table_def DataFrame_of_def numeric_attributes_def is_num_def
        is_str_def is_neighborhood_def cell_def)
  show ?thesis
    unfolding compute64_rows [OF ty cols num]
    by (simp add: example_table_def DataFrame_of_def is_neighborhood_def cell_def
        row_closed_form64_def num_or_def)
qed

lemma closed_form64_first:
  "walkability_closed_form64 100 0 0 0 0 0 = Fin (3602879701896397 / 9007199254740992)"
  unfolding walkability_closed_form64_def
  by (simp add: f64_eval)

lemma closed_form64_second:
  "walkability_closed_form64 0 0 0 1 200 40 = Fin (5404319552844596 / 9007199254740992)"
  unfolding walkability_closed_form64_def
  by (simp add: f64_eval)

lemma closed_form64_third:
  "walkability_closed_form64 10 0 0 0 120 0 = Fin (8646911284551353 / 36028797018963968)"
  unfolding walkability_closed_form64_def
  by (simp add: f64_eval)

section \<open>The claims about the scorer\<close>

text \<open>
  Claim C1, in the arithmetic of the code. On a node table that has the \<open>type\<close> column and
  the six attribute columns, and whose neighborhood rows hold numbers in them (\<open>ndvi_mean\<close>
  may be missing and then counts as 0.0), \<open>compute_walkability_scores\<close> returns, and the
  float it writes into \<open>walkability_rule\<close> on every neighborhood row is
  \<open>min((0.4*residential + 0.3*commercial + 0.2*education)/100 + 0.4*(0.5*ndvi)
  + 0.2*min(tree_count/100, 1) + 0.2*min(transit_count/20, 1), 1.0)\<close> evaluated in float64:
  every attribute and literal is the float nearest to it and every operation is rounded,
  in the order in which the formula is written. The call on a neighborhood with
  residential 100 and everything else 0 writes the float 0.4. The call on a neighborhood
  with ndvi 1.0, tree count 200, transit count 40 and no land use writes
  0.6000000000000001, which is not the float 0.6.
\<close>

theorem scorer_closed_form_binary64:
  assumes ty: "''type'' \<in> set (columns df)"
    and cols: "set score_columns \<subseteq> set (columns df)"
    and num: "\<forall>r \<in> set (rows df). is_neighborhood r \<longrightarrow> numeric_attributes r"
  shows "(\<exists>ws. compute_walkability_scores64 df = Inr ws \<and> length ws = length (rows df) \<and>
           (\<forall>i < length (rows df). is_neighborhood (rows df ! i) \<longrightarrow>
              ws ! i = Some (row_closed_form64 (rows df ! i)))) \<and>
         compute_walkability_scores64
           (example_table (Num 100) (Num 0) (Num 0) (Num 0) (Num 0) (Num 0))
           = Inr [Some (round64 0.4), None] \<and>
         compute_walkability_scores64
           (example_table (Num 0) (Num 0) (Num 0) (Num 1.0) (Num 200) (Num 40))
           = Inr [Some (round64 (6000000000000001 / 10000000000000000)), None] \<and>
         round64 (6000000000000001 / 10000000000000000) \<noteq> round64 0.6"
proof (intro conjI)
  let ?ws = "map (\<lambda>r. if is_neighborhood r then Some (row_closed_form64 r) else None) (rows df)"
  have "compute_walkability_scores64 df = Inr ?ws"
    using ty cols num by (rule compute64_rows)
  moreover have "length ?ws = length (rows df)" by simp
  moreover have "\<forall>i < length (rows df). is_neighborhood (rows df ! i) \<longrightarrow>
              ?ws ! i = Some (row_closed_form64 (rows df ! i))"
    by simp
  ultimately show "\<exists>ws. compute_walkability_scores64 df = Inr ws \<and> length ws = length (rows df) \<and>
           (\<forall>i < length (rows df). is_neighborhood (rows df ! i) \<longrightarrow>
              ws ! i = Some (row_closed_form64 (rows df ! i)))"
    by blast
next
  show "compute_walkability_scores64
           (example_table (Num 100) (Num 0) (Num 0) (Num 0) (Num 0) (Num 0))
           = Inr [Some (round64 0.4), None]"
    unfolding score64_example_table closed_form64_first round64_literals by simp
next
  show "compute_walkability_scores64
           (example_table (Num 0) (Num 0) (Num 0) (Num 1.0) (Num 200) (Num 40))
           = Inr [Some (round64 (6000000000000001 / 10000000000000000)), None]"
    unfolding score64_example_table round64_next_above
    using closed_form64_second by simp
next
  show "round64 (6000000000000001 / 10000000000000000) \<noteq> round64 0.6"
    unfolding round64_next_above round64_literals by simp
qed

text \<open>The theorem at the table of a neighborhood with residential 10 and 120 trees beside a
  tree row: the call returns and writes \<open>8646911284551353 / 2^55\<close>, the float
  0.24000000000000002, on the neighborhood row.\<close>

theorem scorer_closed_form_binary64_witness:
  "''type'' \<in> set (columns (example_table (Num 10) (Num 0) (Num 0) (Num 0) (Num 120) (Num 0))) \<and>
   numeric_attributes (hd (rows (example_table (Num 10) (Num 0) (Num 0) (Num 0) (Num 120) (Num 0)))) \<and>
   is_neighborhood (hd (rows (example_table (Num 10) (Num 0) (Num 0) (Num 0) (Num 120) (Num 0)))) \<and>
   (\<exists>ws. compute_walkability_scores64
            (example_table (Num 10) (Num 0) (Num 0) (Num 0) (Num 120) (Num 0)) = Inr ws \<and>
         ws ! 0 = Some (Fin (8646911284551353 / 36028797018963968)))"
proof -
  let ?df = "example_table (Num 10) (Num 0) (Num 0) (Num 0) (Num 120) (Num 0)"
  have ty: "''type'' \<in> set (columns ?df)"
    and cols: "set score_columns \<subseteq> set (columns ?df)"
    by (simp_all add: example_table_def DataFrame_of_def score_columns_def)
  have num0: "numeric_attributes (hd (rows ?df))"
    by (simp add: example_table_def DataFrame_of_def numeric_attributes_def is_num_def
        is_str_def cell_def)
  have nb0: "is_neighborhood (hd (rows ?df))"
    by (simp add: example_table_def DataFrame_of_def is_neighborhood_def cell_def)
  have num: "\<forall>r \<in> set (rows ?df). is_neighborhood r \<longrightarrow> numeric_attributes r"
    using num0 by (simp add: example_table_def DataFrame_of_def is_neighborhood_def cell_def)
  have nb: "is_neighborhood (rows ?df ! 0)" and len: "0 < length (rows ?df)"
    by (simp_all add: example_table_def DataFrame_of_def is_neighborhood_def cell_def)
  from scorer_closed_form_binary64 [OF ty cols num] nb len
  obtain ws where "compute_walkability_scores64 ?df = Inr ws"
    and "ws ! 0 = Some (row_closed_form64 (rows ?df ! 0))"
    by blast
  moreover have "row_closed_form64 (rows ?df ! 0) = walkability_closed_form64 10 0 0 0 120 0"
    by (simp add: example_table_def DataFrame_of_def cell_def num_or_def row_closed_form64_def)
  ultimately show ?thesis
    using ty num0 nb0 unfolding closed_form64_third by simp
qed

text \<open>
  The claim as written has the second call write 0.6. The exact value of the closed form
  at ndvi 1.0, tree count 200 and transit count 40 is 0.6 and the float nearest to it is
  \<open>5404319552844595 / 2^53\<close>; the call writes \<open>5404319552844596 / 2^53\<close>, the next float
  above: each of the three terms is the float 0.2, which lies slightly above 0.2, and
  their sum lies halfway between the two floats, a tie that goes to the even one.
\<close>

theorem scorer_rounding_counterexample:
  "compute_walkability_scores64
     (example_table (Num 0) (Num 0) (Num 0) (Num 1.0) (Num 200) (Num 40))
     = Inr [Some (Fin (5404319552844596 / 9007199254740992)), None] \<and>
   walkability_closed_form 0 0 0 1.0 200 40 = 0.6 \<and>
   round64 0.6 = Fin (5404319552844595 / 9007199254740992)"
proof (intro conjI)
  show "compute_walkability_scores64
     (example_table (Num 0) (Num 0) (Num 0) (Num 1.0) (Num 200) (Num 40))
     = Inr [Some (Fin (5404319552844596 / 9007199254740992)), None]"
    unfolding score64_example_table using closed_form64_second by simp
  show "walkability_closed_form 0 0 0 1.0 200 40 = 0.6"
    by (rule closed_form_second)
  show "round64 0.6 = Fin (5404319552844595 / 9007199254740992)"
    by (rule round64_literals)
qed



text \<open>
  Claim C9, as the code has it. A successful call keeps the number of rows, adds at most the
  column \<open>walkability_rule\<close>, and leaves every other key of every row as it was. A row not
  tagged \<open>neighborhood\<close> keeps the value it had in \<open>walkability_rule\<close> when the table
  already had that column, and holds the default 0.0 when the call added the column. On a
  table with no neighborhood row the call returns without reading any attribute column:
  the table itself when it has the column, the table with the column added at 0.0 otherwise.
\<close>

theorem scorer_frame:
  "(compute_walkability_scores df = Inr out \<longrightarrow>
      length (rows out) = length (rows df) \<and>
      set (columns out) = insert ''walkability_rule'' (set (columns df)) \<and>
      (\<forall>i < length (rows df).
         (\<forall>c. c \<noteq> ''walkability_rule'' \<longrightarrow> map_of (rows out ! i) c = map_of (rows df ! i) c) \<and>
         (\<not> is_neighborhood (rows df ! i) \<longrightarrow>
            cell (rows out ! i) ''walkability_rule'' =
              (if ''walkability_rule'' \<in> set (columns df)
               then cell (rows df ! i) ''walkability_rule'' else Num 0.0)))) \<and>
   (''type'' \<in> set (columns df) \<and> (\<forall>r \<in> set (rows df). \<not> is_neighborhood r) \<longrightarrow>
      compute_walkability_scores df =
        Inr (if ''walkability_rule'' \<in> set (columns df) then df
             else setitem df ''walkability_rule'' (Num 0.0)))"
proof (intro conjI impI allI)
  assume ok: "compute_walkability_scores df = Inr out"
  show "length (rows out) = length (rows df)"
    by (rule compute_rows(3) [OF ok])
  show "set (columns out) = insert ''walkability_rule'' (set (columns df))"
    using compute_rows(2) [OF ok] by auto
next
  fix i c
  assume ok: "compute_walkability_scores df = Inr out" and i: "i < length (rows df)"
    and c: "c \<noteq> ''walkability_rule''"
  show "map_of (rows out ! i) c = map_of (rows df ! i) c"
    using compute_rows(4) [OF ok i] c
    by (simp add: with_default_def map_of_update_other)
next
  fix i
  assume ok: "compute_walkability_scores df = Inr out" and i: "i < length (rows df)"
    and nb: "\<not> is_neighborhood (rows df ! i)"
  show "cell (rows out ! i) ''walkability_rule'' =
          (if ''walkability_rule'' \<in> set (columns df)
           then cell (rows df ! i) ''walkability_rule'' else Num 0.0)"
    using compute_rows(4) [OF ok i] nb by (simp add: cell_with_default)
next
  assume "''type'' \<in> set (columns df) \<and> (\<forall>r \<in> set (rows df). \<not> is_neighborhood r)"
  then show "compute_walkability_scores df =
        Inr (if ''walkability_rule'' \<in> set (columns df) then df
             else setitem df ''walkability_rule'' (Num 0.0))"
    using compute_no_neighborhood [of df] by simp
qed

text \<open>The frame theorem at the example table of C1, where the tree row gets the default
  and keeps its other keys, and at a table with a single tree row, which gets the column.\<close>

theorem scorer_frame_witness:
  "(\<exists>out. compute_walkability_scores
            (example_table (Num 100) (Num 0) (Num 0) (Num 0) (Num 0) (Num 0)) = Inr out \<and>
         length (rows out) = 2 \<and>
         cell (rows out ! 1) ''walkability_rule'' = Num 0.0 \<and>
         map_of (rows out ! 1) ''vertex'' = Some (Str ''tree_0'')) \<and>
   compute_walkability_scores tree_table =
     Inr \<lparr>columns = [''vertex'', ''type'', ''walkability_rule''],
          rows = [[(''vertex'', Str ''tree_0''), (''type'', Str ''tree''),
                   (''walkability_rule'', Num 0.0)]]\<rparr>"
proof -
  let ?df = "example_table (Num 100) (Num 0) (Num 0) (Num 0) (Num 0) (Num 0)"
  have "\<exists>out. compute_walkability_scores ?df = Inr out"
    by (rule compute_total)
      (simp_all add: example_table_def DataFrame_of_def score_columns_def is_neighborhood_def
        is_str_def cell_def)
  then obtain out where out: "compute_walkability_scores ?df = Inr out" ..
  have facts: "length (rows ?df) = 2" "\<not> is_neighborhood (rows ?df ! 1)"
    "''walkability_rule'' \<notin> set (columns ?df)"
    "map_of (rows ?df ! 1) ''vertex'' = Some (Str ''tree_0'')"
    by (simp_all add: example_table_def DataFrame_of_def is_neighborhood_def cell_def)
  from scorer_frame [of ?df out] out facts
  have "length (rows out) = 2"
    and "cell (rows out ! 1) ''walkability_rule'' = Num 0.0"
    and "map_of (rows out ! 1) ''vertex'' = Some (Str ''tree_0'')"
    by auto
  with out have 1: "\<exists>out. compute_walkability_scores ?df = Inr out \<and>
         length (rows out) = 2 \<and>
         cell (rows out ! 1) ''walkability_rule'' = Num 0.0 \<and>
         map_of (rows out ! 1) ''vertex'' = Some (Str ''tree_0'')"
    by blast
  have t: "''type'' \<in> set (columns tree_table)" "\<forall>r \<in> set (rows tree_table). \<not> is_neighborhood r"
    "''walkability_rule'' \<notin> set (columns tree_table)"
    by (simp_all add: tree_table_def is_neighborhood_def cell_def)
  from scorer_frame [of tree_table out] t
  have "compute_walkability_scores tree_table = Inr (setitem tree_table ''walkability_rule'' (Num 0.0))"
    by simp
  then have 2: "compute_walkability_scores tree_table =
     Inr \<lparr>columns = [''vertex'', ''type'', ''walkability_rule''],
          rows = [[(''vertex'', Str ''tree_0''), (''type'', Str ''tree''),
                   (''walkability_rule'', Num 0.0)]]\<rparr>"
    by (simp add: setitem_def tree_table_def)
  from 1 2 show ?thesis by blast
qed

text \<open>
  The claim as written says that every row other than a neighborhood row holds the default
  0.0 and that a table without a neighborhood row gets the column added. On a table that
  already has the column, with 0.7 on its only row, a building, the call returns the table
  unchanged: the building row still holds 0.7.
\<close>

theorem scorer_default_counterexample:
  "compute_walkability_scores scored_table = Inr scored_table \<and>
   getitem scored_table ''walkability_rule'' = Inr [Num 0.7] \<and>
   getitem scored_table ''type'' = Inr [Str ''building'']"
  by (simp add: scored_table_def compute_walkability_scores_def getitem_def cell_def Let_def)

section \<open>Properties of the validator\<close>

lemma reset_index_fst: "map fst (reset_index gdf) = map int [0..<length gdf]"
  by (simp add: reset_index_def)

lemma reset_index_snd: "map snd (reset_index gdf) = map snd gdf"
  by (simp add: reset_index_def)

lemma length_reset_index: "length (reset_index gdf) = length gdf"
  by (simp add: reset_index_def)

lemma validate_geometries_result:
  assumes "gdf < length h"
  shows "validate_geometries ops h gdf name =
           Some (h @ [filter (\<lambda>(l, r). g_is_valid ops (geometry r)) (h ! gdf),
                      reset_index (filter (\<lambda>(l, r). g_is_valid ops (geometry r)) (h ! gdf))],
                 Suc (length h),
                 [''Validating geometries for '' @ name @ ''...'',
                  name @ '' after validation: ''
                    @ str_nat (length (filter (\<lambda>(l, r). g_is_valid ops (geometry r)) (h ! gdf)))
                    @ '' rows''])"
  using assms
  by (simp add: validate_geometries_def alloc_def Let_def nth_append length_reset_index)

lemma snd_filter_geometry:
  "map snd (filter (\<lambda>(l, r). P r) xs) = filter P (map snd xs)"
  by (induction xs) auto

section \<open>Properties of node identities\<close>

lemma digit_val_digit_char: "d < 10 \<Longrightarrow> digit_val (digit_char d) = Some d"
  by (simp add: digit_val_def digit_char_def Let_def)

lemma parse_digits_append:
  "parse_digits acc (xs @ ys) =
     (case parse_digits acc xs of None \<Rightarrow> None | Some a \<Rightarrow> parse_digits a ys)"
  by (induction xs arbitrary: acc) (simp_all split: option.splits)

lemma parse_digits_str_nat: "parse_digits 0 (str_nat n) = Some n"
proof (induction n rule: str_nat.induct)
  case (1 n)
  show ?case
  proof (cases "n < 10")
    case True
    then show ?thesis
      by (subst str_nat.simps) (simp add: digit_val_digit_char)
  next
    case False
    then have ih: "parse_digits 0 (str_nat (n div 10)) = Some (n div 10)"
      using 1 by simp
    have "n mod 10 < 10" by simp
    then show ?thesis
      using False ih
      by (subst str_nat.simps) (simp add: parse_digits_append digit_val_digit_char)
  qed
qed

lemma is_digit_digit_char: "d < 10 \<Longrightarrow> is_digit (digit_char d)"
  by (simp add: is_digit_def digit_char_def)

lemma str_nat_digits: "c \<in> set (str_nat n) \<Longrightarrow> is_digit c"
proof (induction n rule: str_nat.induct)
  case (1 n)
  show ?case
  proof (cases "n < 10")
    case True
    with 1(2) show ?thesis
      by (subst (asm) str_nat.simps) (simp add: is_digit_digit_char)
  next
    case False
    have "n mod 10 < 10" by simp
    with False 1 show ?thesis
      by (subst (asm) (2) str_nat.simps) (auto simp: is_digit_digit_char)
  qed
qed

lemma str_nat_not_Nil: "str_nat n \<noteq> []"
  by (subst str_nat.simps) simp

lemma py_int_str_int: "py_int (str_int i) = Some i"
proof (cases "i < 0")
  case True
  then show ?thesis
    by (simp add: py_int_def str_int_def str_nat_not_Nil parse_digits_str_nat)
next
  case False
  obtain c cs where s: "str_nat (nat i) = c # cs"
    using str_nat_not_Nil [of "nat i"] by (cases "str_nat (nat i)") auto
  then have "is_digit c" using str_nat_digits [of c "nat i"] by simp
  then have "c \<noteq> CHR ''-''" "c \<noteq> CHR ''+''"
    by (auto simp: is_digit_def)
  then show ?thesis
    using False s parse_digits_str_nat [of "nat i"]
    by (simp add: py_int_def str_int_def)
qed

lemma split_no_sep: "sep \<notin> set s \<Longrightarrow> split sep s = [s]"
  by (induction s) auto

lemma str_int_no_underscore: "CHR ''_'' \<notin> set (str_int i)"
proof -
  have "\<not> is_digit CHR ''_''" by (simp add: is_digit_def)
  then have "CHR ''_'' \<notin> set (str_nat n)" for n
    using str_nat_digits by blast
  then show ?thesis by (simp add: str_int_def)
qed

lemma split_road_start:
  "split CHR ''_'' (''road_start_'' @ str_int i) = [''road'', ''start'', str_int i]"
  by (simp add: split_no_sep [OF str_int_no_underscore])

lemma split_road_end:
  "split CHR ''_'' (''road_end_'' @ str_int i) = [''road'', ''end'', str_int i]"
  by (simp add: split_no_sep [OF str_int_no_underscore])

lemma iloc_2_of_3: "iloc [a, b, c] 2 = Inr c"
  by (simp add: iloc_def)

lemma str_int_small: "str_int 0 = ''0''" "str_int 1 = ''1''" "str_int 2 = ''2''"
  by code_simp+

section \<open>Properties of the loop body\<close>

lemma road_points_of_ids:
  "road_points_of ops rel = Inr ps \<Longrightarrow>
   map fst ps = concat (map (\<lambda>(i, r). road_ids i) (filter (\<lambda>(i, r). is_LineString ops r) rel))"
proof (induction rel arbitrary: ps)
  case Nil
  then show ?case by simp
next
  case (Cons a rel)
  obtain i r where a: "a = (i, r)" by (cases a)
  show ?case
  proof (cases "is_LineString ops r")
    case True
    with Cons.prems a obtain p q ps' where "road_points_of ops rel = Inr ps'"
      and "ps = (''road_start_'' @ str_int i, p) # (''road_end_'' @ str_int i, q) # ps'"
      by (auto simp: is_LineString_def and_then_eq_Inr Let_def)
    with Cons.IH [of ps'] True a show ?thesis
      by (simp add: road_ids_def)
  next
    case False
    with Cons a show ?thesis by (simp add: is_LineString_def Let_def)
  qed
qed

lemma road_nodes_of_step:
  assumes "node_id \<in> set (road_ids i)"
  shows "road_nodes_of roads_gdf ((node_id, p) # rest) =
           and_then (iloc (map snd roads_gdf) i) (\<lambda>row.
             and_then (road_nodes_of roads_gdf rest) (\<lambda>ns. Inr (road_node node_id row # ns)))"
  using assms
  by (auto simp: road_ids_def split_road_start split_road_end iloc_2_of_3 py_int_str_int
      simp del: append.simps)

lemma road_nodes_of_ids:
  "road_nodes_of roads_gdf ps = Inr ns \<Longrightarrow> map fst ps = concat (map road_ids ls) \<Longrightarrow>
   (\<forall>i \<in> set ls. \<exists>row. iloc (map snd roads_gdf) i = Inr row) \<and>
   ns = concat (map (endpoint_nodes roads_gdf) ls)"
proof (induction ls arbitrary: ps ns)
  case Nil
  then show ?case by simp
next
  case (Cons i ls)
  from Cons.prems(2)
  have "map fst ps = (''road_start_'' @ str_int i) # (''road_end_'' @ str_int i)
                       # concat (map road_ids ls)"
    by (simp add: road_ids_def [of i])
  then obtain p q ps' where
    ps: "ps = (''road_start_'' @ str_int i, p) # (''road_end_'' @ str_int i, q) # ps'"
    and rest: "map fst ps' = concat (map road_ids ls)"
    by (auto simp: Cons_eq_map_conv)
  have s: "''road_start_'' @ str_int i \<in> set (road_ids i)"
    and e: "''road_end_'' @ str_int i \<in> set (road_ids i)"
    by (simp_all add: road_ids_def)
  from Cons.prems(1) obtain row ns' where row: "iloc (map snd roads_gdf) i = Inr row"
    and ns': "road_nodes_of roads_gdf ps' = Inr ns'"
    and ns: "ns = road_node (''road_start_'' @ str_int i) row
                 # road_node (''road_end_'' @ str_int i) row # ns'"
    unfolding ps road_nodes_of_step [OF s] road_nodes_of_step [OF e]
    by (auto simp: and_then_eq_Inr)
  from Cons.IH [OF ns' rest] row ns show ?case
    by (simp add: endpoint_nodes_def row_at_def road_ids_def)
qed

lemma construct_subgraph_Inr:
  assumes "construct_subgraph ops d nb = Inr (sd, rn)"
  shows "edges sd = None"
    and "rows (nodes sd) =
           neighborhood_node nb
           # map building_node (filter (\<lambda>(l, b). in_buffer ops nb b) (buildings d))
           @ rn
           @ map tree_node (filter (\<lambda>(l, t). in_buffer ops nb t) (trees d))
           @ map transit_node (filter (\<lambda>(l, t). in_buffer ops nb t) (transit d))"
    and "rn = concat (map (\<lambda>(i, r). endpoint_nodes (roads d) i)
                 (filter (\<lambda>(i, r). is_LineString ops r)
                    (filter (\<lambda>(i, r). meets_buffer ops nb r) (roads d))))"
    and "\<forall>(i, r) \<in> set (roads d). meets_buffer ops nb r \<and> is_LineString ops r \<longrightarrow>
           (\<exists>row. iloc (map snd (roads d)) i = Inr row)"
proof -
  let ?sel = "filter (\<lambda>(i, r). meets_buffer ops nb r) (roads d)"
  let ?ls = "filter (\<lambda>(i, r). is_LineString ops r) ?sel"
  have sel: "filter (\<lambda>(l, r). g_intersects ops (geometry r) (g_buffer ops (geometry nb) 200)) (roads d)
               = ?sel"
    by (simp add: meets_buffer_def)
  from assms obtain ps where ps: "road_points_of ops ?sel = Inr ps"
    and rn: "road_nodes_of (roads d) ps = Inr rn"
    and sd: "sd = \<lparr>nodes = DataFrame_of
                 ([neighborhood_node nb]
                  @ map building_node (filter (\<lambda>(l, b). in_buffer ops nb b) (buildings d))
                  @ rn
                  @ map tree_node (filter (\<lambda>(l, t). in_buffer ops nb t) (trees d))
                  @ map transit_node (filter (\<lambda>(l, t). in_buffer ops nb t) (transit d))),
               edges = None\<rparr>"
    unfolding construct_subgraph_def Let_def sel
    by (auto simp: and_then_eq_Inr in_buffer_def)
  show "edges sd = None" by (simp add: sd)
  show "rows (nodes sd) =
           neighborhood_node nb
           # map building_node (filter (\<lambda>(l, b). in_buffer ops nb b) (buildings d))
           @ rn
           @ map tree_node (filter (\<lambda>(l, t). in_buffer ops nb t) (trees d))
           @ map transit_node (filter (\<lambda>(l, t). in_buffer ops nb t) (transit d))"
    by (simp add: sd DataFrame_of_def)
  have ids: "map fst ps = concat (map road_ids (map fst ?ls))"
    using road_points_of_ids [OF ps] by (simp add: o_def case_prod_unfold)
  from road_nodes_of_ids [OF rn ids]
  have rows: "\<forall>i \<in> set (map fst ?ls). \<exists>row. iloc (map snd (roads d)) i = Inr row"
    and rn': "rn = concat (map (endpoint_nodes (roads d)) (map fst ?ls))"
    by blast+
  show "rn = concat (map (\<lambda>(i, r). endpoint_nodes (roads d) i) ?ls)"
    using rn' by (simp add: o_def case_prod_unfold)
  show "\<forall>(i, r) \<in> set (roads d). meets_buffer ops nb r \<and> is_LineString ops r \<longrightarrow>
           (\<exists>row. iloc (map snd (roads d)) i = Inr row)"
    using rows by force
qed

lemma town_buffer: "g_buffer box_ops (geometry town_nb) 200 = Shape ''Polygon'' [(-200, -200), (300, 300)]"
  by (simp add: box_ops_def town_nb_def shape_coords_def)

lemma str_int_inj: "str_int i = str_int j \<Longrightarrow> i = j"
  by (metis py_int_str_int option.inject)

lemma node_cells:
  "vertex (neighborhood_node nb) = Str (''neighborhood_'' @ LIE_NAME nb)"
  "vertex (building_node (i, b)) = Str (''building_'' @ str_int i)"
  "vertex (tree_node (i, t)) = Str (''tree_'' @ str_int i)"
  "vertex (transit_node (i, s)) = Str (''transit_'' @ str_int i)"
  "vertex (road_node node_id row) = Str node_id"
  "node_type (neighborhood_node nb) = Str ''neighborhood''"
  "node_type (building_node (i, b)) = Str ''building''"
  "node_type (tree_node (i, t)) = Str ''tree''"
  "node_type (transit_node (i, s)) = Str ''transit''"
  "node_type (road_node node_id row) = Str ''road''"
  by (simp_all add: vertex_def node_type_def cell_def neighborhood_node_def building_node_def
      tree_node_def transit_node_def road_node_def)

lemma endpoint_nodes_cells:
  "r \<in> set (endpoint_nodes roads_gdf i) \<Longrightarrow>
     node_type r = Str ''road'' \<and>
     (vertex r = Str (''road_start_'' @ str_int i) \<or> vertex r = Str (''road_end_'' @ str_int i))"
  by (auto simp: endpoint_nodes_def road_ids_def node_cells)

lemma length_endpoint_nodes: "length (endpoint_nodes roads_gdf i) = 2"
  by (simp add: endpoint_nodes_def road_ids_def)

lemma iloc_range_index:
  assumes "map fst gdf = map int [0..<length gdf]" "(i, r) \<in> set gdf"
  shows "iloc (map snd gdf) i = Inr r"
proof -
  from assms(2) obtain k where k: "k < length gdf" "gdf ! k = (i, r)"
    by (auto simp: in_set_conv_nth)
  have "fst (gdf ! k) = int k"
    using assms(1) k(1) by (metis nth_map nth_upt add_0 length_upt diff_zero)
  with k have "i = int k" by simp
  with k show ?thesis by (simp add: iloc_def)
qed

lemma vertex_rows:
  assumes "construct_subgraph ops d nb = Inr (sd, rn)" "x \<in> set (rows (nodes sd))"
  shows "x = neighborhood_node nb
       \<or> (\<exists>(i, b) \<in> set (buildings d). in_buffer ops nb b \<and> x = building_node (i, b))
       \<or> (\<exists>(i, r) \<in> set (roads d). meets_buffer ops nb r \<and> is_LineString ops r
              \<and> x \<in> set (endpoint_nodes (roads d) i))
       \<or> (\<exists>(i, t) \<in> set (trees d). in_buffer ops nb t \<and> x = tree_node (i, t))
       \<or> (\<exists>(i, t) \<in> set (transit d). in_buffer ops nb t \<and> x = transit_node (i, t))"
  using assms(2)
  unfolding construct_subgraph_Inr(2) [OF assms(1)] construct_subgraph_Inr(3) [OF assms(1)]
  by auto

lemma building_vertex_excluded:
  fixes ops :: "'g geom_ops"
  assumes c: "construct_subgraph ops d nb = Inr (sd, rn)"
    and b: "(i, b) \<in> set (buildings d)" and dist: "distinct (map fst (buildings d))"
    and out: "\<not> in_buffer ops nb b"
  shows "Str (''building_'' @ str_int i) \<notin> vertex ` set (rows (nodes sd))"
proof
  assume "Str (''building_'' @ str_int i) \<in> vertex ` set (rows (nodes sd))"
  then obtain x where x: "x \<in> set (rows (nodes sd))" and v: "vertex x = Str (''building_'' @ str_int i)"
    by auto
  from vertex_rows [OF c x] show False
  proof (elim disjE bexE)
    assume "x = neighborhood_node nb"
    with v show False by (simp add: node_cells)
  next
    fix p assume p: "p \<in> set (buildings d)"
      and "case p of (j, b') \<Rightarrow> in_buffer ops nb b' \<and> x = building_node (j, b')"
    then obtain j b' where pj: "p = (j, b')" and inb: "in_buffer ops nb b'" and xb: "x = building_node (j, b')"
      by (cases p) auto
    from v xb have "j = i" by (simp add: node_cells str_int_inj)
    with p pj b dist have "b' = b" by (metis eq_key_imp_eq_value)
    with inb out show False by simp
  next
    fix p assume "p \<in> set (roads d)"
      and "case p of (j, r) \<Rightarrow> meets_buffer ops nb r \<and> is_LineString ops r \<and> x \<in> set (endpoint_nodes (roads d) j)"
    then obtain j where "x \<in> set (endpoint_nodes (roads d) j)" by (cases p) auto
    from endpoint_nodes_cells [OF this] v show False by auto
  next
    fix p assume "p \<in> set (trees d)"
      and "case p of (j, t) \<Rightarrow> in_buffer ops nb t \<and> x = tree_node (j, t)"
    then obtain j and t :: "'g feature" where "x = tree_node (j, t)" by (cases p) auto
    with v show False by (simp add: node_cells)
  next
    fix p assume "p \<in> set (transit d)"
      and "case p of (j, t) \<Rightarrow> in_buffer ops nb t \<and> x = transit_node (j, t)"
    then obtain j and t :: "'g transit_row" where "x = transit_node (j, t)" by (cases p) auto
    with v show False by (simp add: node_cells)
  qed
qed

lemma endpoint_nodes_included:
  assumes c: "construct_subgraph ops d nb = Inr (sd, rn)"
    and r: "(i, r) \<in> set (roads d)" "meets_buffer ops nb r" "is_LineString ops r"
  shows "set (endpoint_nodes (roads d) i) \<subseteq> set (rows (nodes sd))"
  unfolding construct_subgraph_Inr(2) [OF c] construct_subgraph_Inr(3) [OF c]
  using r by force

lemma road_vertex_excluded:
  fixes ops :: "'g geom_ops"
  assumes c: "construct_subgraph ops d nb = Inr (sd, rn)"
    and no: "\<forall>(j, r) \<in> set (roads d). j = i \<and> meets_buffer ops nb r \<longrightarrow> \<not> is_LineString ops r"
    and nid: "node_id \<in> set (road_ids i)"
  shows "Str node_id \<notin> vertex ` set (rows (nodes sd))"
proof
  assume "Str node_id \<in> vertex ` set (rows (nodes sd))"
  then obtain x where x: "x \<in> set (rows (nodes sd))" and v: "vertex x = Str node_id"
    by auto
  from nid have nid': "node_id = ''road_start_'' @ str_int i \<or> node_id = ''road_end_'' @ str_int i"
    by (simp add: road_ids_def)
  from vertex_rows [OF c x] show False
  proof (elim disjE bexE)
    assume "x = neighborhood_node nb"
    with v nid' show False by (auto simp: node_cells)
  next
    fix p assume p: "p \<in> set (buildings d)"
      and "case p of (j, b') \<Rightarrow> in_buffer ops nb b' \<and> x = building_node (j, b')"
    then obtain j and b' :: "'g building_row" where "x = building_node (j, b')" by (cases p) auto
    with v nid' show False by (auto simp: node_cells)
  next
    fix p assume p: "p \<in> set (roads d)"
      and "case p of (j, r) \<Rightarrow> meets_buffer ops nb r \<and> is_LineString ops r \<and> x \<in> set (endpoint_nodes (roads d) j)"
    then obtain j r where pj: "p = (j, r)" and sel: "meets_buffer ops nb r" "is_LineString ops r"
      and xe: "x \<in> set (endpoint_nodes (roads d) j)" by (cases p) auto
    from endpoint_nodes_cells [OF xe] v nid' have "j = i" by (auto simp: str_int_inj)
    with no p pj sel show False by auto
  next
    fix p assume "p \<in> set (trees d)"
      and "case p of (j, t) \<Rightarrow> in_buffer ops nb t \<and> x = tree_node (j, t)"
    then obtain j and t :: "'g feature" where "x = tree_node (j, t)" by (cases p) auto
    with v nid' show False by (auto simp: node_cells)
  next
    fix p assume "p \<in> set (transit d)"
      and "case p of (j, t) \<Rightarrow> in_buffer ops nb t \<and> x = transit_node (j, t)"
    then obtain j and t :: "'g transit_row" where "x = transit_node (j, t)" by (cases p) auto
    with v nid' show False by (auto simp: node_cells)
  qed
qed

lemma construct_neighborhood_first:
  assumes "construct_subgraph ops d nb = Inr (sd, rn)"
  shows "rows (nodes sd) ! 0 = neighborhood_node nb \<and>
         is_neighborhood (rows (nodes sd) ! 0) \<and>
         filter is_neighborhood (rows (nodes sd)) = [neighborhood_node nb] \<and>
         getitem (nodes sd) ''type'' = Inr (map node_type (rows (nodes sd)))"
proof -
  note rows = construct_subgraph_Inr(2) [OF assms]
  note rn = construct_subgraph_Inr(3) [OF assms]
  have nb: "is_neighborhood (neighborhood_node nb)"
    using node_cells(6) [of nb] by (simp add: is_neighborhood_def node_type_def)
  have b: "\<not> is_neighborhood (building_node p)" for p :: "int \<times> 'a building_row"
    using node_cells(7) [of "fst p" "snd p"] by (simp add: is_neighborhood_def node_type_def)
  have t: "\<not> is_neighborhood (tree_node p)" for p :: "int \<times> 'a feature"
    using node_cells(8) [of "fst p" "snd p"] by (simp add: is_neighborhood_def node_type_def)
  have s: "\<not> is_neighborhood (transit_node p)" for p :: "int \<times> 'a transit_row"
    using node_cells(9) [of "fst p" "snd p"] by (simp add: is_neighborhood_def node_type_def)
  have r: "\<not> is_neighborhood x" if "x \<in> set rn" for x
    using that endpoint_nodes_cells [of x "roads d"] unfolding rn
    by (auto simp: is_neighborhood_def node_type_def)
  have "filter is_neighborhood rn = []"
    using r by (simp add: filter_empty_conv)
  then have f: "filter is_neighborhood (rows (nodes sd)) = [neighborhood_node nb]"
    unfolding rows using nb b t s by (simp add: filter_empty_conv)
  have "''type'' \<in> set (columns (nodes sd))"
  proof -
    from assms obtain all_nodes where "nodes sd = DataFrame_of (neighborhood_node nb # all_nodes)"
      by (auto simp: construct_subgraph_def Let_def and_then_eq_Inr)
    then show ?thesis
      by (simp add: DataFrame_of_def neighborhood_node_def)
  qed
  then have "getitem (nodes sd) ''type'' = Inr (map node_type (rows (nodes sd)))"
    by (simp add: getitem_def node_type_def)
  with f nb show ?thesis
    unfolding rows by simp
qed

lemma build_loop_fresh:
  assumes "files fs (subgraph_path_of (LIE_NAME nb)) = None"
    and "construct_subgraph ops d nb = Inr (sd, rn)"
    and "\<not> open_fails fs (subgraph_path_of (LIE_NAME nb))"
    and "\<not> dump_fails fs (subgraph_path_of (LIE_NAME nb))"
  shows "build_loop ops d fs sg rnn (nb # rest) =
           build_loop ops d (fs\<lparr>files := (files fs)(subgraph_path_of (LIE_NAME nb) \<mapsto> Pickled sd)\<rparr>)
             (AList.update (LIE_NAME nb) sd sg) (rnn @ rn) rest"
  using assms by (simp add: Let_def dump_pickle_def)

subsection \<open>The loop body on the town\<close>

lemma construct_town:
  "construct_subgraph box_ops town town_nb = Inr (town_subgraph, town_road_nodes)"
  unfolding construct_subgraph_def Let_def town_buffer
  by (simp add: town_def box_ops_def shape_coords_def in_bbox_def iloc_def
      py_int_def digit_val_def str_int_small building_node_def tree_node_def transit_node_def
      road_node_def town_subgraph_def town_road_nodes_def)

lemma town_facts:
  "roads town ! 0 = (0, snd (roads town ! 0))"
  "roads town ! 1 = (1, snd (roads town ! 1))"
  "meets_buffer box_ops town_nb (snd (roads town ! 0))"
  "is_LineString box_ops (snd (roads town ! 0))"
  "meets_buffer box_ops town_nb (snd (roads town ! 1))"
  "g_geom_type box_ops (geometry (snd (roads town ! 1))) = ''MultiLineString''"
  "map fst (roads town) = [0, 1]"
  "map fst (buildings town) = [0, 1, 2]"
  "\<not> in_buffer box_ops town_nb (snd (buildings town ! 1))"
  "\<not> in_buffer box_ops town_nb (snd (buildings town ! 2))"
  "buildings town ! 1 = (1, snd (buildings town ! 1))"
  "buildings town ! 2 = (2, snd (buildings town ! 2))"
  "\<not> in_buffer box_ops town_nb (snd (roads town ! 0))"
  "\<not> in_buffer box_ops town_nb (snd (roads town ! 1))"
  unfolding meets_buffer_def in_buffer_def is_LineString_def town_buffer
  by (simp_all add: town_def box_ops_def shape_coords_def in_bbox_def)

section \<open>The claim about the validator\<close>

text \<open>
  Claim C5. \<open>validate_geometries\<close> on a table of the store always returns (it raises
  nothing): the result is a new object, every object that was in the store, the input table
  among them, is as before, the rows of the result are exactly the rows of the input whose
  geometry is valid, in their order, their labels are 0, 1, ... and there are at most as
  many of them as in the input.
\<close>

theorem validate_geometries_spec:
  assumes "gdf < length h"
  shows "\<exists>h' out printed.
           validate_geometries ops h gdf name = Some (h', out, printed) \<and>
           out < length h' \<and> length h \<le> out \<and>
           (\<forall>r < length h. h' ! r = h ! r) \<and>
           (\<forall>row \<in> set (map snd (h' ! out)). g_is_valid ops (geometry row)) \<and>
           map snd (h' ! out) = filter (\<lambda>row. g_is_valid ops (geometry row)) (map snd (h ! gdf)) \<and>
           map fst (h' ! out) = map int [0..<length (h' ! out)] \<and>
           length (h' ! out) \<le> length (h ! gdf)"
proof -
  define valid where "valid = filter (\<lambda>(l, r). g_is_valid ops (geometry r)) (h ! gdf)"
  define h' where "h' = h @ [valid, reset_index valid]"
  define printed where "printed = [''Validating geometries for '' @ name @ ''...'',
                  name @ '' after validation: '' @ str_nat (length valid) @ '' rows'']"
  have res: "validate_geometries ops h gdf name = Some (h', Suc (length h), printed)"
    unfolding h'_def valid_def printed_def by (rule validate_geometries_result [OF assms])
  have out: "h' ! Suc (length h) = reset_index valid"
    by (simp add: h'_def nth_append)
  have snd_valid: "map snd valid = filter (\<lambda>row. g_is_valid ops (geometry row)) (map snd (h ! gdf))"
    unfolding valid_def by (rule snd_filter_geometry)
  have 1: "Suc (length h) < length h'" "length h \<le> Suc (length h)"
    by (simp_all add: h'_def)
  have 2: "\<forall>r < length h. h' ! r = h ! r"
    by (simp add: h'_def nth_append)
  have 3: "\<forall>row \<in> set (map snd (h' ! Suc (length h))). g_is_valid ops (geometry row)"
    unfolding out reset_index_snd snd_valid by simp
  have 4: "map snd (h' ! Suc (length h))
             = filter (\<lambda>row. g_is_valid ops (geometry row)) (map snd (h ! gdf))"
    unfolding out reset_index_snd snd_valid ..
  have 5: "map fst (h' ! Suc (length h)) = map int [0..<length (h' ! Suc (length h))]"
    unfolding out by (simp add: reset_index_fst length_reset_index)
  have 6: "length (h' ! Suc (length h)) \<le> length (h ! gdf)"
    unfolding out by (simp add: length_reset_index valid_def)
  from res 1 2 3 4 5 6 show ?thesis by blast
qed

theorem validate_geometries_spec_witness:
  "0 < length tree_store \<and>
   validate_geometries box_ops tree_store 0 ''trees'' =
     Some (tree_store
             @ [[(5, \<lparr>geometry = Shape ''Point'' [(0, 0)]\<rparr>), (9, \<lparr>geometry = Shape ''Point'' [(1, 1)]\<rparr>)],
                [(0, \<lparr>geometry = Shape ''Point'' [(0, 0)]\<rparr>), (1, \<lparr>geometry = Shape ''Point'' [(1, 1)]\<rparr>)]],
           2,
           [''Validating geometries for trees...'', ''trees after validation: 2 rows''])"
proof -
  have len: "0 < length tree_store" by (simp add: tree_store_def)
  from validate_geometries_spec [OF len, of box_ops "''trees''"]
  obtain h' out printed where
    res: "validate_geometries box_ops tree_store 0 ''trees'' = Some (h', out, printed)"
    by blast
  have two: "str_nat (Suc (Suc 0)) = ''2''" by code_simp
  have "validate_geometries box_ops tree_store 0 ''trees'' =
     Some (tree_store
             @ [[(5, \<lparr>geometry = Shape ''Point'' [(0, 0)]\<rparr>), (9, \<lparr>geometry = Shape ''Point'' [(1, 1)]\<rparr>)],
                [(0, \<lparr>geometry = Shape ''Point'' [(0, 0)]\<rparr>), (1, \<lparr>geometry = Shape ''Point'' [(1, 1)]\<rparr>)]],
           2,
           [''Validating geometries for trees...'', ''trees after validation: 2 rows''])"
    unfolding validate_geometries_result [OF len]
    by (simp add: tree_store_def box_ops_def shape_coords_def reset_index_def two)
  with len res show ?thesis by simp
qed

section \<open>The claims about the loop body\<close>

text \<open>
  Claim C6. A subgraph that the loop body constructs has the neighborhood node as row 0 of
  its node table, and that row is the only one whose \<open>type\<close> is \<open>neighborhood\<close>; the table
  has the \<open>type\<close> column the scorer reads. It is this subgraph that the loop stores under
  the neighborhood name and writes to the cache when the name has no cache file.
\<close>

theorem fresh_subgraph_neighborhood_first:
  fixes ops :: "'g geom_ops"
  assumes "construct_subgraph ops d nb = Inr (sd, rn)"
  shows "rows (nodes sd) ! 0 = neighborhood_node nb \<and>
         is_neighborhood (rows (nodes sd) ! 0) \<and>
         filter is_neighborhood (rows (nodes sd)) = [neighborhood_node nb] \<and>
         getitem (nodes sd) ''type'' = Inr (map node_type (rows (nodes sd))) \<and>
         (files fs (subgraph_path_of (LIE_NAME nb)) = None \<and>
          \<not> open_fails fs (subgraph_path_of (LIE_NAME nb)) \<and>
          \<not> dump_fails fs (subgraph_path_of (LIE_NAME nb)) \<longrightarrow>
            build_loop ops d fs sg0 rnn0 [nb] =
              (fs\<lparr>files := (files fs)(subgraph_path_of (LIE_NAME nb) \<mapsto> Pickled sd)\<rparr>,
               Inr (AList.update (LIE_NAME nb) sd sg0, rnn0 @ rn)))"
proof -
  have "build_loop ops d fs sg0 rnn0 [nb] =
              (fs\<lparr>files := (files fs)(subgraph_path_of (LIE_NAME nb) \<mapsto> Pickled sd)\<rparr>,
               Inr (AList.update (LIE_NAME nb) sd sg0, rnn0 @ rn))"
    if "files fs (subgraph_path_of (LIE_NAME nb)) = None"
      "\<not> open_fails fs (subgraph_path_of (LIE_NAME nb))"
      "\<not> dump_fails fs (subgraph_path_of (LIE_NAME nb))"
    using build_loop_fresh [OF that(1) assms that(2,3), of sg0 rnn0 "[]"] by simp
  with construct_neighborhood_first [OF assms] show ?thesis by blast
qed

theorem fresh_subgraph_neighborhood_first_witness:
  "construct_subgraph box_ops town town_nb = Inr (town_subgraph, town_road_nodes) \<and>
   rows (nodes town_subgraph) ! 0 = neighborhood_node town_nb \<and>
   filter is_neighborhood (rows (nodes town_subgraph)) = [neighborhood_node town_nb] \<and>
   length (rows (nodes town_subgraph)) = 5"
proof -
  from fresh_subgraph_neighborhood_first [OF construct_town]
  have a: "rows (nodes town_subgraph) ! 0 = neighborhood_node town_nb"
    and b: "filter is_neighborhood (rows (nodes town_subgraph)) = [neighborhood_node town_nb]"
    by blast+
  have c: "length (rows (nodes town_subgraph)) = 5"
    by (simp add: town_subgraph_def DataFrame_of_def town_road_nodes_def)
  from construct_town a b c show ?thesis by blast
qed

text \<open>
  Claim C3, with the gate of the road loops. The node table of a constructed subgraph is the
  neighborhood node, then one node for every building \<open>within\<close> the buffer of the
  neighborhood geometry at distance 200, then the endpoint nodes of the \<open>LineString\<close> roads
  that \<open>intersect\<close> that buffer, then one node for every tree and every transit stop
  \<open>within\<close> it. So a building that is not within the buffer (entirely outside, or touching
  the boundary without being contained) has no node (its identity is \<open>building_<label>\<close>;
  labels are taken distinct), and a road that intersects the buffer, whether or not it is
  contained, is included when its geometry type is \<open>LineString\<close>: its two endpoint nodes
  are in the table. What \<open>buffer\<close>, \<open>within\<close> and \<open>intersects\<close> answer on a given pair of
  geometries is the geometry library's.
\<close>

theorem buffer_selection:
  fixes ops :: "'g geom_ops"
  assumes "construct_subgraph ops d nb = Inr (sd, rn)"
  shows "rows (nodes sd) =
           neighborhood_node nb
           # map building_node (filter (\<lambda>(l, b). in_buffer ops nb b) (buildings d))
           @ concat (map (\<lambda>(i, r). endpoint_nodes (roads d) i)
               (filter (\<lambda>(i, r). is_LineString ops r)
                  (filter (\<lambda>(i, r). meets_buffer ops nb r) (roads d))))
           @ map tree_node (filter (\<lambda>(l, t). in_buffer ops nb t) (trees d))
           @ map transit_node (filter (\<lambda>(l, t). in_buffer ops nb t) (transit d)) \<and>
         (\<forall>(i, b) \<in> set (buildings d).
            distinct (map fst (buildings d)) \<and> \<not> in_buffer ops nb b \<longrightarrow>
            Str (''building_'' @ str_int i) \<notin> vertex ` set (rows (nodes sd))) \<and>
         (\<forall>(i, r) \<in> set (roads d).
            meets_buffer ops nb r \<and> is_LineString ops r \<longrightarrow>
            set (endpoint_nodes (roads d) i) \<subseteq> set (rows (nodes sd)))"
proof (intro conjI)
  show "rows (nodes sd) =
           neighborhood_node nb
           # map building_node (filter (\<lambda>(l, b). in_buffer ops nb b) (buildings d))
           @ concat (map (\<lambda>(i, r). endpoint_nodes (roads d) i)
               (filter (\<lambda>(i, r). is_LineString ops r)
                  (filter (\<lambda>(i, r). meets_buffer ops nb r) (roads d))))
           @ map tree_node (filter (\<lambda>(l, t). in_buffer ops nb t) (trees d))
           @ map transit_node (filter (\<lambda>(l, t). in_buffer ops nb t) (transit d))"
    using construct_subgraph_Inr(2) [OF assms] construct_subgraph_Inr(3) [OF assms] by simp
  show "\<forall>(i, b) \<in> set (buildings d).
            distinct (map fst (buildings d)) \<and> \<not> in_buffer ops nb b \<longrightarrow>
            Str (''building_'' @ str_int i) \<notin> vertex ` set (rows (nodes sd))"
    using building_vertex_excluded [OF assms] by blast
  show "\<forall>(i, r) \<in> set (roads d).
            meets_buffer ops nb r \<and> is_LineString ops r \<longrightarrow>
            set (endpoint_nodes (roads d) i) \<subseteq> set (rows (nodes sd))"
    using endpoint_nodes_included [OF assms] by blast
qed

theorem buffer_selection_witness:
  "construct_subgraph box_ops town town_nb = Inr (town_subgraph, town_road_nodes) \<and>
   meets_buffer box_ops town_nb (snd (roads town ! 0)) \<and>
   \<not> in_buffer box_ops town_nb (snd (roads town ! 0)) \<and>
   is_LineString box_ops (snd (roads town ! 0)) \<and>
   Str ''building_1'' \<notin> vertex ` set (rows (nodes town_subgraph)) \<and>
   Str ''building_2'' \<notin> vertex ` set (rows (nodes town_subgraph)) \<and>
   set (endpoint_nodes (roads town) 0) \<subseteq> set (rows (nodes town_subgraph)) \<and>
   map vertex (rows (nodes town_subgraph)) =
     [Str ''neighborhood_A'', Str ''building_0'', Str ''road_start_0'', Str ''road_end_0'',
      Str ''tree_0'']"
proof -
  note sel = buffer_selection [OF construct_town]
  have b1: "buildings town ! 1 \<in> set (buildings town)" and b2: "buildings town ! 2 \<in> set (buildings town)"
    and r0: "roads town ! 0 \<in> set (roads town)"
    by (simp_all add: town_def)
  have dist: "distinct (map fst (buildings town))"
    by (simp add: town_facts)
  from sel have excl: "\<forall>(i, b) \<in> set (buildings town).
            distinct (map fst (buildings town)) \<and> \<not> in_buffer box_ops town_nb b \<longrightarrow>
            Str (''building_'' @ str_int i) \<notin> vertex ` set (rows (nodes town_subgraph))"
    and incl: "\<forall>(i, r) \<in> set (roads town).
            meets_buffer box_ops town_nb r \<and> is_LineString box_ops r \<longrightarrow>
            set (endpoint_nodes (roads town) i) \<subseteq> set (rows (nodes town_subgraph))"
    by blast+
  have "(1, snd (buildings town ! 1)) \<in> set (buildings town)"
    using b1 town_facts(11) by simp
  from bspec [OF excl this] dist town_facts(9)
  have 1: "Str (''building_'' @ str_int 1) \<notin> vertex ` set (rows (nodes town_subgraph))"
    by simp
  have "(2, snd (buildings town ! 2)) \<in> set (buildings town)"
    using b2 town_facts(12) by simp
  from bspec [OF excl this] dist town_facts(10)
  have 2: "Str (''building_'' @ str_int 2) \<notin> vertex ` set (rows (nodes town_subgraph))"
    by simp
  have "(0, snd (roads town ! 0)) \<in> set (roads town)"
    using r0 town_facts(1) by simp
  from bspec [OF incl this] town_facts(3,4)
  have 3: "set (endpoint_nodes (roads town) 0) \<subseteq> set (rows (nodes town_subgraph))"
    by simp
  have 4: "map vertex (rows (nodes town_subgraph)) =
     [Str ''neighborhood_A'', Str ''building_0'', Str ''road_start_0'', Str ''road_end_0'',
      Str ''tree_0'']"
    by (simp add: town_subgraph_def DataFrame_of_def town_road_nodes_def vertex_def cell_def
        neighborhood_node_def town_nb_def)
  from 1 2 have "Str ''building_1'' \<notin> vertex ` set (rows (nodes town_subgraph))"
    and "Str ''building_2'' \<notin> vertex ` set (rows (nodes town_subgraph))"
    by (simp_all add: str_int_small)
  with 3 4 construct_town town_facts(3,4,13) show ?thesis
    by blast
qed

text \<open>
  The claim as written includes every road that crosses the buffer boundary. Road 1 of the
  town starts inside the buffer and ends outside, so it intersects the buffer and is not
  within it, and \<open>roads_in_buffer\<close> holds it; it is a \<open>MultiLineString\<close>, both road loops
  pass over it, and the node table has the endpoint nodes of road 0 only.
\<close>

theorem buffer_selection_counterexample:
  "construct_subgraph box_ops town town_nb = Inr (town_subgraph, town_road_nodes) \<and>
   fst (roads town ! 1) = 1 \<and>
   meets_buffer box_ops town_nb (snd (roads town ! 1)) \<and>
   \<not> in_buffer box_ops town_nb (snd (roads town ! 1)) \<and>
   \<not> is_LineString box_ops (snd (roads town ! 1)) \<and>
   map vertex (rows (nodes town_subgraph)) =
     [Str ''neighborhood_A'', Str ''building_0'', Str ''road_start_0'', Str ''road_end_0'',
      Str ''tree_0''] \<and>
   map vertex town_road_nodes = [Str ''road_start_0'', Str ''road_end_0'']"
proof -
  have "fst (roads town ! 1) = 1"
    by (simp add: town_def)
  moreover have "\<not> is_LineString box_ops (snd (roads town ! 1))"
    using town_facts(6) by (simp add: is_LineString_def)
  moreover have "map vertex (rows (nodes town_subgraph)) =
     [Str ''neighborhood_A'', Str ''building_0'', Str ''road_start_0'', Str ''road_end_0'',
      Str ''tree_0'']"
    by (simp add: town_subgraph_def DataFrame_of_def town_road_nodes_def vertex_def cell_def
        neighborhood_node_def town_nb_def)
  moreover have "map vertex town_road_nodes = [Str ''road_start_0'', Str ''road_end_0'']"
    by (simp add: town_road_nodes_def vertex_def cell_def)
  ultimately show ?thesis
    using construct_town town_facts(5,14) by simp
qed

text \<open>
  Claim C8, for the roads that emit nodes. For every selected road with label \<open>i\<close> whose
  geometry type is \<open>LineString\<close>, a constructed subgraph has the two nodes with identities
  \<open>road_start_i\<close> and \<open>road_end_i\<close>; \<open>split('_')\<close> of either identity has three segments
  and \<open>int\<close> of the third is \<open>i\<close>; both nodes carry the class and the length of the row at
  position \<open>i\<close> of the road layer, which is the selected road itself when the labels of the
  layer are its positions.
\<close>

theorem road_identity_roundtrip:
  fixes ops :: "'g geom_ops"
  assumes c: "construct_subgraph ops d nb = Inr (sd, rn)"
    and r: "(i, road) \<in> set (roads d)" "meets_buffer ops nb road" "is_LineString ops road"
  shows "\<exists>row. iloc (map snd (roads d)) i = Inr row \<and>
           road_node (''road_start_'' @ str_int i) row \<in> set (rows (nodes sd)) \<and>
           road_node (''road_end_'' @ str_int i) row \<in> set (rows (nodes sd)) \<and>
           split CHR ''_'' (''road_start_'' @ str_int i) = [''road'', ''start'', str_int i] \<and>
           split CHR ''_'' (''road_end_'' @ str_int i) = [''road'', ''end'', str_int i] \<and>
           iloc [''road'', ''start'', str_int i] 2 = Inr (str_int i) \<and>
           iloc [''road'', ''end'', str_int i] 2 = Inr (str_int i) \<and>
           py_int (str_int i) = Some i \<and>
           cell (road_node (''road_start_'' @ str_int i) row) ''road_class'' = road_class_attr row \<and>
           cell (road_node (''road_start_'' @ str_int i) row) ''length_m'' = length_m row \<and>
           cell (road_node (''road_end_'' @ str_int i) row) ''road_class'' = road_class_attr row \<and>
           cell (road_node (''road_end_'' @ str_int i) row) ''length_m'' = length_m row \<and>
           (map fst (roads d) = map int [0..<length (roads d)] \<longrightarrow> row = road)"
proof -
  from construct_subgraph_Inr(4) [OF c] r obtain row where row: "iloc (map snd (roads d)) i = Inr row"
    by blast
  have sub: "set (endpoint_nodes (roads d) i) \<subseteq> set (rows (nodes sd))"
    by (rule endpoint_nodes_included [OF c r])
  have cells: "cell (road_node node_id row) ''road_class'' = road_class_attr row"
    "cell (road_node node_id row) ''length_m'' = length_m row" for node_id
    by (simp_all add: road_node_def cell_def)
  show ?thesis
  proof (intro exI [of _ row] conjI impI)
    show "iloc (map snd (roads d)) i = Inr row" by (rule row)
    show "road_node (''road_start_'' @ str_int i) row \<in> set (rows (nodes sd))"
      using sub row by (simp add: endpoint_nodes_def road_ids_def row_at_def)
    show "road_node (''road_end_'' @ str_int i) row \<in> set (rows (nodes sd))"
      using sub row by (simp add: endpoint_nodes_def road_ids_def row_at_def)
    show "split CHR ''_'' (''road_start_'' @ str_int i) = [''road'', ''start'', str_int i]"
      by (rule split_road_start)
    show "split CHR ''_'' (''road_end_'' @ str_int i) = [''road'', ''end'', str_int i]"
      by (rule split_road_end)
    show "iloc [''road'', ''start'', str_int i] 2 = Inr (str_int i)" by (rule iloc_2_of_3)
    show "iloc [''road'', ''end'', str_int i] 2 = Inr (str_int i)" by (rule iloc_2_of_3)
    show "py_int (str_int i) = Some i" by (rule py_int_str_int)
    show "cell (road_node (''road_start_'' @ str_int i) row) ''road_class'' = road_class_attr row"
      by (rule cells)
    show "cell (road_node (''road_start_'' @ str_int i) row) ''length_m'' = length_m row"
      by (rule cells)
    show "cell (road_node (''road_end_'' @ str_int i) row) ''road_class'' = road_class_attr row"
      by (rule cells)
    show "cell (road_node (''road_end_'' @ str_int i) row) ''length_m'' = length_m row"
      by (rule cells)
    assume "map fst (roads d) = map int [0..<length (roads d)]"
    from iloc_range_index [OF this r(1)] row show "row = road" by simp
  qed
qed

theorem road_identity_roundtrip_witness:
  "construct_subgraph box_ops town town_nb = Inr (town_subgraph, town_road_nodes) \<and>
   road_node ''road_start_0'' (snd (roads town ! 0)) \<in> set (rows (nodes town_subgraph)) \<and>
   road_node ''road_end_0'' (snd (roads town ! 0)) \<in> set (rows (nodes town_subgraph)) \<and>
   py_int (split CHR ''_'' ''road_start_0'' ! 2) = Some 0 \<and>
   py_int (split CHR ''_'' ''road_end_0'' ! 2) = Some 0"
proof -
  have r0: "(0, snd (roads town ! 0)) \<in> set (roads town)"
    by (simp add: town_def)
  have idx: "map fst (roads town) = map int [0..<length (roads town)]"
    by (simp add: town_def)
  from road_identity_roundtrip [OF construct_town r0 town_facts(3,4)] idx
  have "road_node (''road_start_'' @ str_int 0) (snd (roads town ! 0)) \<in> set (rows (nodes town_subgraph))"
    and "road_node (''road_end_'' @ str_int 0) (snd (roads town ! 0)) \<in> set (rows (nodes town_subgraph))"
    and "split CHR ''_'' (''road_start_'' @ str_int 0) = [''road'', ''start'', str_int 0]"
    and "split CHR ''_'' (''road_end_'' @ str_int 0) = [''road'', ''end'', str_int 0]"
    and "py_int (str_int 0) = Some 0"
    by blast+
  then show ?thesis
    using construct_town by (simp add: str_int_small)
qed

text \<open>
  The claim as written speaks of every selected road. Road 1 of the town is selected (it
  intersects the buffer) and is a \<open>MultiLineString\<close>: the constructed node table has the
  endpoint nodes of road 0 only, and no node \<open>road_start_1\<close> or \<open>road_end_1\<close>.
\<close>

theorem road_identity_counterexample:
  "construct_subgraph box_ops town town_nb = Inr (town_subgraph, town_road_nodes) \<and>
   roads town ! 1 = (1, snd (roads town ! 1)) \<and>
   g_intersects box_ops (geometry (snd (roads town ! 1))) (g_buffer box_ops (geometry town_nb) 200) \<and>
   g_geom_type box_ops (geometry (snd (roads town ! 1))) = ''MultiLineString'' \<and>
   getitem (nodes town_subgraph) ''vertex'' =
     Inr [Str ''neighborhood_A'', Str ''building_0'', Str ''road_start_0'', Str ''road_end_0'',
          Str ''tree_0'']"
proof -
  have "getitem (nodes town_subgraph) ''vertex'' =
     Inr [Str ''neighborhood_A'', Str ''building_0'', Str ''road_start_0'', Str ''road_end_0'',
          Str ''tree_0'']"
    by (simp add: getitem_def town_subgraph_def DataFrame_of_def town_road_nodes_def cell_def
        neighborhood_node_def town_nb_def)
  then show ?thesis
    using construct_town town_facts(2,5,6) by (simp add: meets_buffer_def)
qed

text \<open>
  Claim C10. The rows of type \<open>road\<close> of a constructed node table are the endpoint nodes of
  the selected roads whose geometry type is exactly \<open>LineString\<close>, two for each; a
  selected road of another geometry type contributes none, so (labels being distinct) no
  node carries its \<open>road_start_\<close> or \<open>road_end_\<close> identity.
\<close>

theorem non_linestring_emits_nothing:
  fixes ops :: "'g geom_ops"
  assumes c: "construct_subgraph ops d nb = Inr (sd, rn)"
  shows "filter (\<lambda>x. node_type x = Str ''road'') (rows (nodes sd)) =
           concat (map (\<lambda>(i, r). endpoint_nodes (roads d) i)
             (filter (\<lambda>(i, r). g_geom_type ops (geometry r) = ''LineString'')
                (filter (\<lambda>(i, r). meets_buffer ops nb r) (roads d)))) \<and>
         length (filter (\<lambda>x. node_type x = Str ''road'') (rows (nodes sd))) =
           2 * length (filter (\<lambda>(i, r). g_geom_type ops (geometry r) = ''LineString'')
                        (filter (\<lambda>(i, r). meets_buffer ops nb r) (roads d))) \<and>
         (\<forall>(i, road) \<in> set (roads d).
            meets_buffer ops nb road \<and> g_geom_type ops (geometry road) \<noteq> ''LineString'' \<and>
            distinct (map fst (roads d)) \<longrightarrow>
            Str (''road_start_'' @ str_int i) \<notin> vertex ` set (rows (nodes sd)) \<and>
            Str (''road_end_'' @ str_int i) \<notin> vertex ` set (rows (nodes sd)))"
proof (intro conjI)
  let ?ls = "filter (\<lambda>(i, r). g_geom_type ops (geometry r) = ''LineString'')
                (filter (\<lambda>(i, r). meets_buffer ops nb r) (roads d))"
  note rows = construct_subgraph_Inr(2) [OF c]
  have rn: "rn = concat (map (\<lambda>(i, r). endpoint_nodes (roads d) i) ?ls)"
    using construct_subgraph_Inr(3) [OF c] by (simp add: is_LineString_def)
  have all_road: "\<forall>x \<in> set rn. node_type x = Str ''road''"
    unfolding rn using endpoint_nodes_cells by fastforce
  have b: "node_type (building_node p) \<noteq> Str ''road''" for p :: "int \<times> 'g building_row"
    using node_cells(7) [of "fst p" "snd p"] by simp
  have t: "node_type (tree_node p) \<noteq> Str ''road''" for p :: "int \<times> 'g feature"
    using node_cells(8) [of "fst p" "snd p"] by simp
  have s: "node_type (transit_node p) \<noteq> Str ''road''" for p :: "int \<times> 'g transit_row"
    using node_cells(9) [of "fst p" "snd p"] by simp
  have "filter (\<lambda>x. node_type x = Str ''road'') (rows (nodes sd)) = rn"
    unfolding rows using all_road b t s
    by (simp add: filter_empty_conv node_cells filter_id_conv)
  then show f: "filter (\<lambda>x. node_type x = Str ''road'') (rows (nodes sd)) =
           concat (map (\<lambda>(i, r). endpoint_nodes (roads d) i) ?ls)"
    using rn by simp
  have "length (concat (map (\<lambda>(i, r). endpoint_nodes (roads d) i) xs)) = 2 * length xs"
    for xs :: "(int \<times> 'g road_row) list"
    by (induction xs) (auto simp: length_endpoint_nodes)
  then show "length (filter (\<lambda>x. node_type x = Str ''road'') (rows (nodes sd))) = 2 * length ?ls"
    unfolding f by simp
  show "\<forall>(i, road) \<in> set (roads d).
            meets_buffer ops nb road \<and> g_geom_type ops (geometry road) \<noteq> ''LineString'' \<and>
            distinct (map fst (roads d)) \<longrightarrow>
            Str (''road_start_'' @ str_int i) \<notin> vertex ` set (rows (nodes sd)) \<and>
            Str (''road_end_'' @ str_int i) \<notin> vertex ` set (rows (nodes sd))"
  proof (clarify, rule conjI)
    fix i road
    assume r: "(i, road) \<in> set (roads d)" and nl: "g_geom_type ops (geometry road) \<noteq> ''LineString''"
      and dist: "distinct (map fst (roads d))"
    have no: "\<forall>(j, r) \<in> set (roads d). j = i \<and> meets_buffer ops nb r \<longrightarrow> \<not> is_LineString ops r"
    proof clarify
      fix r' assume "(i, r') \<in> set (roads d)" "is_LineString ops r'"
      with r dist have "r' = road" by (metis eq_key_imp_eq_value)
      with \<open>is_LineString ops r'\<close> nl show False by (simp add: is_LineString_def)
    qed
    show "Str (''road_start_'' @ str_int i) \<notin> vertex ` set (rows (nodes sd))"
      by (rule road_vertex_excluded [OF c no]) (simp add: road_ids_def)
    show "Str (''road_end_'' @ str_int i) \<notin> vertex ` set (rows (nodes sd))"
      by (rule road_vertex_excluded [OF c no]) (simp add: road_ids_def)
  qed
qed

theorem non_linestring_emits_nothing_witness:
  "construct_subgraph box_ops town town_nb = Inr (town_subgraph, town_road_nodes) \<and>
   g_geom_type box_ops (geometry (snd (roads town ! 1))) = ''MultiLineString'' \<and>
   Str ''road_start_1'' \<notin> vertex ` set (rows (nodes town_subgraph)) \<and>
   Str ''road_end_1'' \<notin> vertex ` set (rows (nodes town_subgraph)) \<and>
   length (filter (\<lambda>x. node_type x = Str ''road'') (rows (nodes town_subgraph))) = 2"
proof -
  from non_linestring_emits_nothing [OF construct_town]
  have excl: "\<forall>(i, road) \<in> set (roads town).
            meets_buffer box_ops town_nb road \<and> g_geom_type box_ops (geometry road) \<noteq> ''LineString'' \<and>
            distinct (map fst (roads town)) \<longrightarrow>
            Str (''road_start_'' @ str_int i) \<notin> vertex ` set (rows (nodes town_subgraph)) \<and>
            Str (''road_end_'' @ str_int i) \<notin> vertex ` set (rows (nodes town_subgraph))"
    and len: "length (filter (\<lambda>x. node_type x = Str ''road'') (rows (nodes town_subgraph))) =
           2 * length (filter (\<lambda>(i, r). g_geom_type box_ops (geometry r) = ''LineString'')
                        (filter (\<lambda>(i, r). meets_buffer box_ops town_nb r) (roads town)))"
    by blast+
  have r1: "(1, snd (roads town ! 1)) \<in> set (roads town)"
    by (simp add: town_def)
  have dist: "distinct (map fst (roads town))"
    by (simp add: town_facts)
  from bspec [OF excl r1] dist town_facts(5,6)
  have "Str (''road_start_'' @ str_int 1) \<notin> vertex ` set (rows (nodes town_subgraph))"
    and "Str (''road_end_'' @ str_int 1) \<notin> vertex ` set (rows (nodes town_subgraph))"
    by simp_all
  then have 1: "Str ''road_start_1'' \<notin> vertex ` set (rows (nodes town_subgraph))"
    and 2: "Str ''road_end_1'' \<notin> vertex ` set (rows (nodes town_subgraph))"
    by (simp_all add: str_int_small)
  have "filter (\<lambda>(i, r). g_geom_type box_ops (geometry r) = ''LineString'')
          (filter (\<lambda>(i, r). meets_buffer box_ops town_nb r) (roads town)) = [roads town ! 0]"
    unfolding meets_buffer_def town_buffer
    by (simp add: town_def box_ops_def shape_coords_def in_bbox_def)
  with len have 3: "length (filter (\<lambda>x. node_type x = Str ''road'') (rows (nodes town_subgraph))) = 2"
    by simp
  from 1 2 3 construct_town town_facts(6) show ?thesis by blast
qed

section \<open>Properties of the neighborhood loop\<close>

lemma subgraph_path_of_inj [simp]: "subgraph_path_of a = subgraph_path_of b \<longleftrightarrow> a = b"
  by (simp add: subgraph_path_of_def)




lemma dump_pickle_fails:
  "open_fails fs p \<or> dump_fails fs p \<Longrightarrow>
   snd (dump_pickle fs p sd) = Some OSError \<and>
   (\<forall>q. q \<noteq> p \<longrightarrow> files (fst (dump_pickle fs p sd)) q = files fs q)"
  by (auto simp: dump_pickle_def)





lemma build_loop_append:
  "build_loop ops d fs sg rnn (xs @ ys) =
     (case build_loop ops d fs sg rnn xs of
        (fs', Inl e) \<Rightarrow> (fs', Inl e)
      | (fs', Inr (sg', rnn')) \<Rightarrow> build_loop ops d fs' sg' rnn' ys)"
  by (induction xs arbitrary: fs sg rnn)
    (simp_all add: Let_def split: sum.splits prod.splits option.splits)

subsection \<open>The loop on the town and on the three towns\<close>

lemma town_named_buffer:
  "g_buffer box_ops (geometry (town_named n)) 200 = Shape ''Polygon'' [(-200, -200), (300, 300)]"
  by (simp add: box_ops_def town_nb_def town_named_def shape_coords_def)

lemma construct_town_named:
  "construct_subgraph box_ops three_towns (town_named n) = Inr (town_subgraph_named n, town_road_nodes)"
  unfolding construct_subgraph_def Let_def town_named_buffer
  by (simp add: three_towns_def town_def box_ops_def shape_coords_def in_bbox_def iloc_def
      py_int_def digit_val_def str_int_small building_node_def tree_node_def transit_node_def
      road_node_def town_subgraph_named_def town_road_nodes_def)

lemma LIE_NAME_town_named [simp]: "LIE_NAME (town_named n) = n"
  by (simp add: town_named_def)


lemma three_towns_run:
  "build_loop box_ops three_towns locked_disk [] [] [town_named ''B'']
     = (locked_disk\<lparr>files := (files locked_disk)(subgraph_path_of ''B'' \<mapsto> Pickled (town_subgraph_named ''B''))\<rparr>,
        Inr ([(''B'', town_subgraph_named ''B'')], town_road_nodes))"
  by (simp add: Let_def construct_town_named dump_pickle_def locked_disk_def)

section \<open>The claims about the cache\<close>



text \<open>
  Claim C7, as the code has it. \<open>build_graph\<close> has no handler around the cache write. When
  the neighborhoods before \<open>nb\<close> have been processed, \<open>nb\<close> is not cached, its subgraph
  has been constructed and writing its cache file raises, then \<open>build_graph\<close> raises
  \<open>OSError\<close>: it returns no subgraphs, the neighborhoods after \<open>nb\<close> are not processed (no
  other path of the file system changes), and the handler of \<open>main\<close> ends the run with
  \<open>Error during analysis\<close>.
\<close>

theorem cache_write_error_ends_run:
  fixes ops :: "'g geom_ops"
  assumes nbs: "map snd (neighborhoods d) = pre @ nb # rest"
    and pre: "build_loop ops d fs0 [] [] pre = (fs, Inr (sg, rnn))"
    and fresh: "files fs (subgraph_path_of (LIE_NAME nb)) = None"
    and built: "construct_subgraph ops d nb = Inr (sd, rn)"
    and fails: "open_fails fs (subgraph_path_of (LIE_NAME nb)) \<or> dump_fails fs (subgraph_path_of (LIE_NAME nb))"
  shows "\<exists>fs'. build_graph ops d fs0 = (fs', Inl OSError) \<and>
               main_stage2 ops d fs0 = (fs', Error_during_analysis OSError) \<and>
               (\<forall>p. p \<noteq> subgraph_path_of (LIE_NAME nb) \<longrightarrow> files fs' p = files fs p)"
proof -
  let ?path = "subgraph_path_of (LIE_NAME nb)"
  obtain fs' err where dp: "dump_pickle fs ?path sd = (fs', err)"
    by (cases "dump_pickle fs ?path sd")
  from dump_pickle_fails [OF fails, of sd] dp
  have e: "err = Some OSError"
    and keep: "\<forall>q. q \<noteq> ?path \<longrightarrow> files fs' q = files fs q"
    by simp_all
  have step: "build_loop ops d fs sg rnn (nb # rest) = (fs', Inl OSError)"
    using fresh built dp e by (simp add: Let_def)
  have bg: "build_graph ops d fs0 = (fs', Inl OSError)"
    unfolding build_graph_def nbs build_loop_append pre using step by simp
  then have "main_stage2 ops d fs0 = (fs', Error_during_analysis OSError)"
    by (simp add: main_stage2_def)
  with bg keep show ?thesis by blast
qed

theorem cache_write_error_ends_run_witness:
  "\<exists>fs'. main_stage2 box_ops three_towns locked_disk = (fs', Error_during_analysis OSError) \<and>
         files fs' (subgraph_path_of ''C'') = None"
proof -
  let ?fs = "locked_disk\<lparr>files := (files locked_disk)(subgraph_path_of ''B'' \<mapsto> Pickled (town_subgraph_named ''B''))\<rparr>"
  have nbs: "map snd (neighborhoods three_towns) = [town_named ''B''] @ town_named ''A'' # [town_named ''C'']"
    by (simp add: three_towns_def)
  have fresh: "files ?fs (subgraph_path_of (LIE_NAME (town_named ''A''))) = None"
    by (simp add: locked_disk_def)
  have fails: "open_fails ?fs (subgraph_path_of (LIE_NAME (town_named ''A'')))
      \<or> dump_fails ?fs (subgraph_path_of (LIE_NAME (town_named ''A'')))"
    by (simp add: locked_disk_def)
  from cache_write_error_ends_run [OF nbs three_towns_run fresh construct_town_named fails]
  obtain fs' where "main_stage2 box_ops three_towns locked_disk = (fs', Error_during_analysis OSError)"
    and "\<forall>p. p \<noteq> subgraph_path_of (LIE_NAME (town_named ''A'')) \<longrightarrow> files fs' p = files ?fs p"
    by blast
  moreover have "files ?fs (subgraph_path_of ''C'') = None"
    by (simp add: locked_disk_def)
  ultimately show ?thesis by auto
qed

text \<open>
  The claim as written says that the in-memory subgraph survives, that the error is a
  warning and that the loop goes on. On the three towns with the disk on which the cache
  file of \<open>A\<close> cannot be opened: \<open>B\<close> is constructed and cached, the write for \<open>A\<close>
  raises, the run ends in \<open>Error during analysis\<close> with no subgraph returned (the one of
  \<open>B\<close> included), and \<open>C\<close> is never processed: it has no cache file.
\<close>

theorem cache_write_error_counterexample:
  "snd (main_stage2 box_ops three_towns locked_disk) = Error_during_analysis OSError \<and>
   files (fst (main_stage2 box_ops three_towns locked_disk)) (subgraph_path_of ''B'')
     = Some (Pickled (town_subgraph_named ''B'')) \<and>
   files (fst (main_stage2 box_ops three_towns locked_disk)) (subgraph_path_of ''A'') = None \<and>
   files (fst (main_stage2 box_ops three_towns locked_disk)) (subgraph_path_of ''C'') = None"
proof -
  have nbs: "map snd (neighborhoods three_towns) = [town_named ''B'', town_named ''A'', town_named ''C'']"
    by (simp add: three_towns_def)
  have "main_stage2 box_ops three_towns locked_disk
      = (locked_disk\<lparr>files := (files locked_disk)(subgraph_path_of ''B'' \<mapsto> Pickled (town_subgraph_named ''B''))\<rparr>,
         Error_during_analysis OSError)"
    unfolding main_stage2_def build_graph_def nbs
    by (simp add: Let_def construct_town_named dump_pickle_def locked_disk_def)
  then show ?thesis
    by (simp add: locked_disk_def)
qed

end
